theory Spec2Isabelle
  imports Main
begin

section \<open>Data model (src/types/index.ts)\<close>

text \<open>
  The three entities of the Record Store. Optional fields of the TypeScript interfaces
  (\<^verbatim>\<open>genre?: string\<close>) are \<open>option\<close> values: \<open>None\<close> is \<^verbatim>\<open>undefined\<close>, which is
  also what a key that \<^verbatim>\<open>JSON.stringify\<close> dropped reads back as. Field names carry the
  entity as a prefix, since the three interfaces share the names \<^verbatim>\<open>id\<close>, \<^verbatim>\<open>scriptId\<close>,
  \<^verbatim>\<open>status\<close> and so on. Time stamps are the ISO strings of \<^verbatim>\<open>new Date().toISOString()\<close>;
  every function that reads the clock takes the string as a parameter. The scene number,
  a JavaScript \<^verbatim>\<open>number\<close>, is taken to be an integer.
\<close>

datatype script_status = Draft | Analyzing | Ready | ScriptGenerating | ScriptCompleted

record Script =
  script_id :: string
  script_title :: string
  script_rawContent :: string
  script_genre :: "string option"
  script_styleGuide :: "string option"
  script_status :: script_status
  script_createdAt :: string
  script_updatedAt :: string

record Appearance =
  age :: "string option"
  gender :: "string option"
  height :: "string option"
  hair :: "string option"
  face :: "string option"
  skinTone :: "string option"
  features :: "string list option"

record Character =
  char_id :: string
  char_scriptId :: string
  char_name :: string
  char_appearance :: Appearance
  char_defaultOutfit :: "string option"
  char_referenceImages :: "string list"
  char_selectedImage :: "string option"
  char_basePrompt :: "string option"
  char_createdAt :: string
  char_updatedAt :: string

datatype scene_status = Pending | Generating | Completed | Failed

record Scene =
  scene_id :: string
  scene_scriptId :: string
  scene_sceneNumber :: int
  scene_title :: "string option"
  scene_location :: "string option"
  scene_timeOfDay :: "string option"
  scene_originalText :: string
  scene_visualDescription :: "string option"
  scene_generatedPrompt :: "string option"
  scene_userEditedPrompt :: "string option"
  scene_characterIds :: "string list"
  scene_generatedImages :: "string list"
  scene_selectedImage :: "string option"
  scene_status :: scene_status
  scene_createdAt :: string
  scene_updatedAt :: string

text \<open>
  \<^verbatim>\<open>Partial<T>\<close>, the argument of the \<^verbatim>\<open>update\<close> functions: every key may be absent
  (\<open>None\<close>) or present with a value. For an optional field the value may itself be
  \<^verbatim>\<open>undefined\<close>, so such a key has type \<open>_ option option\<close>: \<open>Some None\<close> is the key
  present with the value \<^verbatim>\<open>undefined\<close>, which the object spread copies over the old
  value like any other.
\<close>

record ScriptUpdates =
  new_script_id :: "string option"
  new_script_title :: "string option"
  new_script_rawContent :: "string option"
  new_script_genre :: "string option option"
  new_script_styleGuide :: "string option option"
  new_script_status :: "script_status option"
  new_script_createdAt :: "string option"

record CharacterUpdates =
  new_char_id :: "string option"
  new_char_scriptId :: "string option"
  new_char_name :: "string option"
  new_char_appearance :: "Appearance option"
  new_char_defaultOutfit :: "string option option"
  new_char_referenceImages :: "string list option"
  new_char_selectedImage :: "string option option"
  new_char_basePrompt :: "string option option"
  new_char_createdAt :: "string option"

record SceneUpdates =
  new_scene_id :: "string option"
  new_scene_scriptId :: "string option"
  new_scene_sceneNumber :: "int option"
  new_scene_title :: "string option option"
  new_scene_location :: "string option option"
  new_scene_timeOfDay :: "string option option"
  new_scene_originalText :: "string option"
  new_scene_visualDescription :: "string option option"
  new_scene_generatedPrompt :: "string option option"
  new_scene_userEditedPrompt :: "string option option"
  new_scene_characterIds :: "string list option"
  new_scene_generatedImages :: "string list option"
  new_scene_selectedImage :: "string option option"
  new_scene_status :: "scene_status option"
  new_scene_createdAt :: "string option"

definition noScriptUpdates :: ScriptUpdates where
  "noScriptUpdates = \<lparr>new_script_id = None, new_script_title = None,
     new_script_rawContent = None, new_script_genre = None, new_script_styleGuide = None,
     new_script_status = None, new_script_createdAt = None\<rparr>"

definition noCharacterUpdates :: CharacterUpdates where
  "noCharacterUpdates = \<lparr>new_char_id = None, new_char_scriptId = None,
     new_char_name = None, new_char_appearance = None, new_char_defaultOutfit = None,
     new_char_referenceImages = None, new_char_selectedImage = None,
     new_char_basePrompt = None, new_char_createdAt = None\<rparr>"

definition noSceneUpdates :: SceneUpdates where
  "noSceneUpdates = \<lparr>new_scene_id = None, new_scene_scriptId = None,
     new_scene_sceneNumber = None, new_scene_title = None, new_scene_location = None,
     new_scene_timeOfDay = None, new_scene_originalText = None,
     new_scene_visualDescription = None, new_scene_generatedPrompt = None,
     new_scene_userEditedPrompt = None, new_scene_characterIds = None,
     new_scene_generatedImages = None, new_scene_selectedImage = None,
     new_scene_status = None, new_scene_createdAt = None\<rparr>"

text \<open>One key of the spread \<^verbatim>\<open>{ ...old, ...updates }\<close>: the update's value when the key
  is present, the old value otherwise.\<close>

fun spread :: "'a \<Rightarrow> 'a option \<Rightarrow> 'a" where
  "spread old None = old"
| "spread old (Some v) = v"

text \<open>\<^verbatim>\<open>{ ...scripts[index], ...updates, updatedAt: new Date().toISOString() }\<close>\<close>

definition mergeScript :: "Script \<Rightarrow> ScriptUpdates \<Rightarrow> string \<Rightarrow> Script" where
  "mergeScript s u now = \<lparr>
     script_id = spread (script_id s) (new_script_id u),
     script_title = spread (script_title s) (new_script_title u),
     script_rawContent = spread (script_rawContent s) (new_script_rawContent u),
     script_genre = spread (script_genre s) (new_script_genre u),
     script_styleGuide = spread (script_styleGuide s) (new_script_styleGuide u),
     script_status = spread (script_status s) (new_script_status u),
     script_createdAt = spread (script_createdAt s) (new_script_createdAt u),
     script_updatedAt = now\<rparr>"

definition mergeCharacter :: "Character \<Rightarrow> CharacterUpdates \<Rightarrow> string \<Rightarrow> Character" where
  "mergeCharacter c u now = \<lparr>
     char_id = spread (char_id c) (new_char_id u),
     char_scriptId = spread (char_scriptId c) (new_char_scriptId u),
     char_name = spread (char_name c) (new_char_name u),
     char_appearance = spread (char_appearance c) (new_char_appearance u),
     char_defaultOutfit = spread (char_defaultOutfit c) (new_char_defaultOutfit u),
     char_referenceImages = spread (char_referenceImages c) (new_char_referenceImages u),
     char_selectedImage = spread (char_selectedImage c) (new_char_selectedImage u),
     char_basePrompt = spread (char_basePrompt c) (new_char_basePrompt u),
     char_createdAt = spread (char_createdAt c) (new_char_createdAt u),
     char_updatedAt = now\<rparr>"

definition mergeScene :: "Scene \<Rightarrow> SceneUpdates \<Rightarrow> string \<Rightarrow> Scene" where
  "mergeScene s u now = \<lparr>
     scene_id = spread (scene_id s) (new_scene_id u),
     scene_scriptId = spread (scene_scriptId s) (new_scene_scriptId u),
     scene_sceneNumber = spread (scene_sceneNumber s) (new_scene_sceneNumber u),
     scene_title = spread (scene_title s) (new_scene_title u),
     scene_location = spread (scene_location s) (new_scene_location u),
     scene_timeOfDay = spread (scene_timeOfDay s) (new_scene_timeOfDay u),
     scene_originalText = spread (scene_originalText s) (new_scene_originalText u),
     scene_visualDescription =
       spread (scene_visualDescription s) (new_scene_visualDescription u),
     scene_generatedPrompt = spread (scene_generatedPrompt s) (new_scene_generatedPrompt u),
     scene_userEditedPrompt =
       spread (scene_userEditedPrompt s) (new_scene_userEditedPrompt u),
     scene_characterIds = spread (scene_characterIds s) (new_scene_characterIds u),
     scene_generatedImages = spread (scene_generatedImages s) (new_scene_generatedImages u),
     scene_selectedImage = spread (scene_selectedImage s) (new_scene_selectedImage u),
     scene_status = spread (scene_status s) (new_scene_status u),
     scene_createdAt = spread (scene_createdAt s) (new_scene_createdAt u),
     scene_updatedAt = now\<rparr>"

section \<open>Record Store (src/lib/storage.ts)\<close>

subsection \<open>saveData and loadData\<close>

text \<open>
  \<^verbatim>\<open>localStorage\<close> maps a key to a text. \<^verbatim>\<open>JSON.stringify\<close> and \<^verbatim>\<open>JSON.parse\<close> belong to
  the platform, not to the repository, so \<open>saveData\<close> and \<open>loadData\<close> take them as
  parameters. \<^verbatim>\<open>JSON.parse\<close> either returns a value or throws a \<^verbatim>\<open>SyntaxError\<close>, which
  \<open>loadData\<close> does not catch; \<^verbatim>\<open>data ? ... : null\<close> yields \<^verbatim>\<open>null\<close> for a missing key and
  for the empty text.
\<close>

type_synonym localStorage = "string \<rightharpoonup> string"

definition STORAGE_PREFIX :: string where
  "STORAGE_PREFIX = ''script-image-generator:''"

datatype parse_error = SyntaxError

definition saveData :: "('a \<Rightarrow> string) \<Rightarrow> string \<Rightarrow> 'a \<Rightarrow> localStorage \<Rightarrow> localStorage" where
  "saveData stringify key data ls = ls(STORAGE_PREFIX @ key \<mapsto> stringify data)"

definition loadData ::
  "(string \<Rightarrow> parse_error + 'a) \<Rightarrow> string \<Rightarrow> localStorage \<Rightarrow> parse_error + 'a option" where
  "loadData parse key ls =
     (case ls (STORAGE_PREFIX @ key) of
        None \<Rightarrow> Inr None
      | Some data \<Rightarrow>
          if data = [] then Inr None
          else (case parse data of Inl e \<Rightarrow> Inl e | Inr v \<Rightarrow> Inr (Some v)))"

subsection \<open>The three collections\<close>

text \<open>
  The entity functions below work on the three keys \<^verbatim>\<open>scripts\<close>, \<^verbatim>\<open>characters\<close> and
  \<^verbatim>\<open>scenes\<close>, which only \<open>saveData\<close> writes. For them the store is kept in decoded form:
  under each key the array that the stored text denotes, \<open>None\<close> while the key has never
  been written. So \<^verbatim>\<open>loadData<Script[]>('scripts') || []\<close> is the stored array, or \<open>[]\<close>
  for \<open>None\<close>, and \<^verbatim>\<open>saveData('scripts', xs)\<close> replaces the array under its key and
  leaves the two other keys alone.
\<close>

record storage =
  scripts :: "Script list option"
  characters :: "Character list option"
  scenes :: "Scene list option"

definition loadScripts :: "storage \<Rightarrow> Script list" where
  "loadScripts st = (case scripts st of None \<Rightarrow> [] | Some xs \<Rightarrow> xs)"

definition saveScripts :: "Script list \<Rightarrow> storage \<Rightarrow> storage" where
  "saveScripts xs st = st\<lparr>scripts := Some xs\<rparr>"

definition loadCharacters :: "storage \<Rightarrow> Character list" where
  "loadCharacters st = (case characters st of None \<Rightarrow> [] | Some xs \<Rightarrow> xs)"

definition saveCharacters :: "Character list \<Rightarrow> storage \<Rightarrow> storage" where
  "saveCharacters xs st = st\<lparr>characters := Some xs\<rparr>"

definition loadScenes :: "storage \<Rightarrow> Scene list" where
  "loadScenes st = (case scenes st of None \<Rightarrow> [] | Some xs \<Rightarrow> xs)"

definition saveScenes :: "Scene list \<Rightarrow> storage \<Rightarrow> storage" where
  "saveScenes xs st = st\<lparr>scenes := Some xs\<rparr>"

text \<open>\<^verbatim>\<open>Array.prototype.findIndex\<close>, with \<open>None\<close> for \<^verbatim>\<open>-1\<close>.\<close>

fun findIndex :: "('a \<Rightarrow> bool) \<Rightarrow> 'a list \<Rightarrow> nat option" where
  "findIndex P [] = None"
| "findIndex P (x # xs) =
     (if P x then Some 0 else map_option Suc (findIndex P xs))"

definition getScript :: "string \<Rightarrow> storage \<Rightarrow> Script option" where
  "getScript i st = find (\<lambda>s. script_id s = i) (loadScripts st)"

definition addScript :: "Script \<Rightarrow> storage \<Rightarrow> storage" where
  "addScript script st = saveScripts (loadScripts st @ [script]) st"

definition updateScript :: "string \<Rightarrow> ScriptUpdates \<Rightarrow> string \<Rightarrow> storage \<Rightarrow> storage" where
  "updateScript i updates now st =
     (let xs = loadScripts st in
      case findIndex (\<lambda>s. script_id s = i) xs of
        None \<Rightarrow> st
      | Some index \<Rightarrow> saveScripts (xs[index := mergeScript (xs ! index) updates now]) st)"

definition deleteScript :: "string \<Rightarrow> storage \<Rightarrow> storage" where
  "deleteScript i st =
     (let st1 = saveScripts (filter (\<lambda>s. script_id s \<noteq> i) (loadScripts st)) st;
          st2 = saveCharacters (filter (\<lambda>c. char_scriptId c \<noteq> i) (loadCharacters st1)) st1
      in saveScenes (filter (\<lambda>s. scene_scriptId s \<noteq> i) (loadScenes st2)) st2)"

definition getCharactersByScript :: "string \<Rightarrow> storage \<Rightarrow> Character list" where
  "getCharactersByScript scriptId st =
     filter (\<lambda>c. char_scriptId c = scriptId) (loadCharacters st)"

definition getCharacter :: "string \<Rightarrow> storage \<Rightarrow> Character option" where
  "getCharacter i st = find (\<lambda>c. char_id c = i) (loadCharacters st)"

definition updateCharacter ::
  "string \<Rightarrow> CharacterUpdates \<Rightarrow> string \<Rightarrow> storage \<Rightarrow> storage" where
  "updateCharacter i updates now st =
     (let xs = loadCharacters st in
      case findIndex (\<lambda>c. char_id c = i) xs of
        None \<Rightarrow> st
      | Some index \<Rightarrow>
          saveCharacters (xs[index := mergeCharacter (xs ! index) updates now]) st)"

text \<open>\<^verbatim>\<open>.sort((a, b) => a.sceneNumber - b.sceneNumber)\<close> is a stable sort on the scene
  number; \<open>sort_key\<close> is the stable insertion sort of the list library.\<close>

definition getScenesByScript :: "string \<Rightarrow> storage \<Rightarrow> Scene list" where
  "getScenesByScript scriptId st =
     sort_key scene_sceneNumber (filter (\<lambda>s. scene_scriptId s = scriptId) (loadScenes st))"

definition getScene :: "string \<Rightarrow> storage \<Rightarrow> Scene option" where
  "getScene i st = find (\<lambda>s. scene_id s = i) (loadScenes st)"

definition updateScene :: "string \<Rightarrow> SceneUpdates \<Rightarrow> string \<Rightarrow> storage \<Rightarrow> storage" where
  "updateScene i updates now st =
     (let xs = loadScenes st in
      case findIndex (\<lambda>s. scene_id s = i) xs of
        None \<Rightarrow> st
      | Some index \<Rightarrow> saveScenes (xs[index := mergeScene (xs ! index) updates now]) st)"

text \<open>\<^verbatim>\<open>saveAnalysisResult\<close> reads both collections first and then writes both.\<close>

definition saveAnalysisResult ::
  "string \<Rightarrow> Character list \<Rightarrow> Scene list \<Rightarrow> storage \<Rightarrow> storage" where
  "saveAnalysisResult scriptId newCharacters newScenes st =
     (let existingCharacters = filter (\<lambda>c. char_scriptId c \<noteq> scriptId) (loadCharacters st);
          existingScenes = filter (\<lambda>s. scene_scriptId s \<noteq> scriptId) (loadScenes st)
      in saveScenes (existingScenes @ newScenes)
           (saveCharacters (existingCharacters @ newCharacters) st))"

section \<open>Values and helpers of the platform\<close>

text \<open>
  JavaScript truthiness of an optional string: \<^verbatim>\<open>undefined\<close> and the empty string are
  falsy. \<open>orElse v d\<close> is \<^verbatim>\<open>v || d\<close>, and \<open>join\<close> is \<^verbatim>\<open>Array.prototype.join\<close> on an
  array of strings. \<open>slice0 xs e\<close> is \<^verbatim>\<open>xs.slice(0, e)\<close>: a negative end counts from the
  end of the array.
\<close>

definition truthy :: "string option \<Rightarrow> bool" where
  "truthy v = (case v of None \<Rightarrow> False | Some s \<Rightarrow> s \<noteq> [])"

definition orElse :: "string option \<Rightarrow> string \<Rightarrow> string" where
  "orElse v d = (case v of None \<Rightarrow> d | Some s \<Rightarrow> if s = [] then d else s)"

fun join :: "string \<Rightarrow> string list \<Rightarrow> string" where
  "join sep [] = []"
| "join sep [x] = x"
| "join sep (x # y # ys) = x @ sep @ join sep (y # ys)"

definition slice0 :: "'a list \<Rightarrow> int \<Rightarrow> 'a list" where
  "slice0 xs e = (if e < 0 then take (nat (int (length xs) + e)) xs else take (nat e) xs)"

text \<open>
  The user-visible messages are Korean literals in the source; each is a constructor
  here, and \<open>Text\<close> carries a message that came with an error of an adapter. What a
  \<^verbatim>\<open>catch\<close> receives is an \<^verbatim>\<open>Error\<close> with its message, or some other thrown value
  (\<^verbatim>\<open>err instanceof Error ? err.message : ...\<close>).
\<close>

datatype message =
    Text string
  | EnterTitle
  | EnterContent
  | AnalysisError
  | AllImagesFailed
  | GenerationError

datatype exn = Error message | NotAnError

section \<open>Prompt Assembler (buildScenePrompt of lib/gemini, in src/lib/imageStorage.ts)\<close>

datatype ImageStyle = Realistic | Anime | Watercolor | Cinematic | Comic

text \<open>The \<^verbatim>\<open>default\<close> branch of the switch (\<^verbatim>\<open>'High quality illustration'\<close>) is for a
  value outside the type \<^verbatim>\<open>ImageStyle\<close>; the five members have their own branch.
  \<open>buildScenePrompt\<close> takes the four fields of a scene that it reads, and of every
  character the name, the appearance (typed \<^verbatim>\<open>any\<close> in the signature, an \<^verbatim>\<open>Appearance\<close> at
  the call) and the outfit; its caller always passes the style.\<close>

fun getStyleModifier :: "ImageStyle \<Rightarrow> string" where
  "getStyleModifier Realistic =
     ''Photorealistic, high-resolution photograph, natural lighting, realistic skin texture, shot on professional camera, 8K quality''"
| "getStyleModifier Anime =
     ''Japanese anime style, vibrant colors, clean line art, expressive eyes, detailed background, Studio Ghibli quality''"
| "getStyleModifier Cinematic =
     ''Cinematic movie still, dramatic lighting, shallow depth of field, anamorphic lens flare, film grain, Hollywood production quality''"
| "getStyleModifier Watercolor =
     ''Soft watercolor painting, delicate brush strokes, gentle color blending, artistic and dreamy atmosphere''"
| "getStyleModifier Comic =
     ''Comic book style, bold outlines, dynamic composition, graphic novel aesthetic, cel shading''"

record ScenePromptInput =
  location :: "string option"
  timeOfDay :: "string option"
  visualDescription :: "string option"
  userEditedPrompt :: "string option"

record CharacterPromptInput =
  name :: string
  appearance :: Appearance
  defaultOutfit :: "string option"

definition buildScenePrompt ::
  "ScenePromptInput \<Rightarrow> CharacterPromptInput list \<Rightarrow> ImageStyle \<Rightarrow> string" where
  "buildScenePrompt scene chars style =
     (if truthy (userEditedPrompt scene) then the (userEditedPrompt scene)
      else
        let styleModifier = getStyleModifier style;
            characterDescriptions = join ''\<newline>'' (map (\<lambda>char.
              let app = appearance char;
                  featureList = join '', '' (map the (filter truthy
                    ([age app, gender app, height app, hair app, face app, skinTone app]
                     @ map Some (case features app of None \<Rightarrow> [] | Some fs \<Rightarrow> fs))))
              in ''- '' @ name char @ '': '' @ featureList @ ''. Outfit: ''
                 @ orElse (defaultOutfit char) ''casual'') chars)
        in styleModifier
           @ ''\<newline>\<newline>SCENE:\<newline>- Location: '' @ orElse (location scene) ''unspecified''
           @ ''\<newline>- Time: '' @ orElse (timeOfDay scene) ''day''
           @ ''\<newline>\<newline>CHARACTERS (match the reference images exactly):\<newline>''
           @ characterDescriptions
           @ ''\<newline>\<newline>SCENE DESCRIPTION:\<newline>''
           @ orElse (visualDescription scene) ''No description''
           @ ''\<newline>\<newline>CRITICAL REQUIREMENTS:\<newline>''
           @ ''- Characters MUST match the provided reference images exactly\<newline>''
           @ ''- Maintain consistent facial features, hair style, and body proportions\<newline>''
           @ ''- Follow the specified art style strictly\<newline>''
           @ ''- High quality, professional composition'')"

subsection \<open>The prompt as the specification words it\<close>

text \<open>
  A second rendering, section by section, after the words of the specification: the style
  phrase; the scene section with its two fall-backs; one line per character, made of the
  appearance fields that are present and not empty, in the order age, gender, height,
  hair, face, skin tone and then the free-form features, separated by a comma and a
  space, followed by the outfit or \<^verbatim>\<open>casual\<close>; the description or \<^verbatim>\<open>No description\<close>; the
  closing block.
\<close>

fun present :: "string option \<Rightarrow> string list" where
  "present None = []"
| "present (Some s) = (if s = [] then [] else [s])"

fun commas :: "string list \<Rightarrow> string" where
  "commas [] = []"
| "commas [x] = x"
| "commas (x # xs) = x @ '', '' @ commas xs"

definition spec_fields :: "Appearance \<Rightarrow> string list" where
  "spec_fields app =
     present (age app) @ present (gender app) @ present (height app) @ present (hair app)
     @ present (face app) @ present (skinTone app)
     @ concat (map (\<lambda>f. present (Some f)) (case features app of None \<Rightarrow> [] | Some fs \<Rightarrow> fs))"

definition spec_character_line :: "CharacterPromptInput \<Rightarrow> string" where
  "spec_character_line c =
     ''- '' @ name c @ '': '' @ commas (spec_fields (appearance c)) @ ''. Outfit: ''
     @ (case present (defaultOutfit c) of [] \<Rightarrow> ''casual'' | outfit # _ \<Rightarrow> outfit)"

fun spec_lines :: "string list \<Rightarrow> string" where
  "spec_lines [] = []"
| "spec_lines [l] = l"
| "spec_lines (l # ls) = l @ ''\<newline>'' @ spec_lines ls"

definition spec_scene_section :: "ScenePromptInput \<Rightarrow> string" where
  "spec_scene_section scene = spec_lines
     [''SCENE:'',
      ''- Location: '' @ (case present (location scene) of [] \<Rightarrow> ''unspecified'' | l # _ \<Rightarrow> l),
      ''- Time: '' @ (case present (timeOfDay scene) of [] \<Rightarrow> ''day'' | t # _ \<Rightarrow> t)]"

definition spec_character_section :: "CharacterPromptInput list \<Rightarrow> string" where
  "spec_character_section chars =
     ''CHARACTERS (match the reference images exactly):\<newline>''
     @ spec_lines (map spec_character_line chars)"

definition spec_description_section :: "ScenePromptInput \<Rightarrow> string" where
  "spec_description_section scene = spec_lines
     [''SCENE DESCRIPTION:'',
      (case present (visualDescription scene) of [] \<Rightarrow> ''No description'' | d # _ \<Rightarrow> d)]"

definition spec_closing_block :: string where
  "spec_closing_block = spec_lines
     [''CRITICAL REQUIREMENTS:'',
      ''- Characters MUST match the provided reference images exactly'',
      ''- Maintain consistent facial features, hair style, and body proportions'',
      ''- Follow the specified art style strictly'',
      ''- High quality, professional composition'']"

definition spec_prompt ::
  "ScenePromptInput \<Rightarrow> CharacterPromptInput list \<Rightarrow> ImageStyle \<Rightarrow> string" where
  "spec_prompt scene chars style =
     getStyleModifier style @ ''\<newline>\<newline>''
     @ spec_scene_section scene @ ''\<newline>\<newline>''
     @ spec_character_section chars @ ''\<newline>\<newline>''
     @ spec_description_section scene @ ''\<newline>\<newline>''
     @ spec_closing_block"

section \<open>Analysis results turned into records (pages/ScriptNew.tsx, pages/ScriptDetail.tsx)\<close>

record AnalysisCharacter =
  ac_name :: string
  ac_appearance :: Appearance
  ac_defaultOutfit :: "string option"

record AnalysisScene =
  as_sceneNumber :: int
  as_title :: "string option"
  as_location :: "string option"
  as_timeOfDay :: "string option"
  as_originalText :: string
  as_visualDescription :: string
  as_characterNames :: "string list"

record AnalysisResult =
  ar_characters :: "AnalysisCharacter list"
  ar_scenes :: "AnalysisScene list"
  ar_styleGuide :: "string option"

text \<open>
  What a handler takes from outside: \<open>trim\<close> is \<^verbatim>\<open>String.prototype.trim\<close>; \<open>uuidv4 k\<close> is
  the identifier that the \<open>k\<close>-th call of \<^verbatim>\<open>uuidv4()\<close> in the handler returns;
  \<open>toISOString k\<close> is the \<open>k\<close>-th reading of the clock in the handler; \<open>analyzeScript\<close> is
  the Analysis Adapter, which returns the parsed result or throws (missing credential,
  failure of the service, or a response that \<^verbatim>\<open>JSON.parse\<close> rejects).
\<close>

record platform =
  trim :: "string \<Rightarrow> string"
  uuidv4 :: "nat \<Rightarrow> string"
  toISOString :: "nat \<Rightarrow> string"
  analyzeScript :: "string \<Rightarrow> exn + AnalysisResult"

text \<open>
  Both handlers build the records with the same three statements. The characters take
  the identifiers \<open>uuidv4 k0\<close>, \<open>uuidv4 (k0 + 1)\<close>, ... in the order of the result.
\<close>

definition charactersOfResult ::
  "platform \<Rightarrow> nat \<Rightarrow> string \<Rightarrow> string \<Rightarrow> AnalysisResult \<Rightarrow> Character list" where
  "charactersOfResult env k0 scriptId now result =
     map (\<lambda>(k, c). \<lparr>
       char_id = uuidv4 env k,
       char_scriptId = scriptId,
       char_name = ac_name c,
       char_appearance = ac_appearance c,
       char_defaultOutfit = ac_defaultOutfit c,
       char_referenceImages = [],
       char_selectedImage = None,
       char_basePrompt = None,
       char_createdAt = now,
       char_updatedAt = now\<rparr>) (enumerate k0 (ar_characters result))"

text \<open>\<^verbatim>\<open>new Map(characters.map((c) => [c.name, c.id]))\<close>: the constructor sets the
  entries one after the other, so an entry replaces an earlier one with the same key.\<close>

definition charNameToId :: "Character list \<Rightarrow> (string \<rightharpoonup> string)" where
  "charNameToId chars = foldl (\<lambda>m c. m(char_name c \<mapsto> char_id c)) Map.empty chars"

text \<open>\<^verbatim>\<open>names.map((name) => charNameToId.get(name)).filter((id) => !!id)\<close>\<close>

definition characterIdsOf :: "Character list \<Rightarrow> string list \<Rightarrow> string list" where
  "characterIdsOf chars names = map the (filter truthy (map (charNameToId chars) names))"

definition scenesOfResult ::
  "platform \<Rightarrow> nat \<Rightarrow> string \<Rightarrow> string \<Rightarrow> Character list \<Rightarrow> AnalysisResult \<Rightarrow> Scene list" where
  "scenesOfResult env k0 scriptId now chars result =
     map (\<lambda>(k, s). \<lparr>
       scene_id = uuidv4 env k,
       scene_scriptId = scriptId,
       scene_sceneNumber = as_sceneNumber s,
       scene_title = as_title s,
       scene_location = as_location s,
       scene_timeOfDay = as_timeOfDay s,
       scene_originalText = as_originalText s,
       scene_visualDescription = Some (as_visualDescription s),
       scene_generatedPrompt = None,
       scene_userEditedPrompt = None,
       scene_characterIds = characterIdsOf chars (as_characterNames s),
       scene_generatedImages = [],
       scene_selectedImage = None,
       scene_status = Pending,
       scene_createdAt = now,
       scene_updatedAt = now\<rparr>) (enumerate k0 (ar_scenes result))"

text \<open>
  \<open>handleSubmit\<close> of the new-script page. The result is the Record Store, the error
  message the page shows (\<open>None\<close> for the empty message) and the script the page
  navigates to. The script is stored with status \<^verbatim>\<open>analyzing\<close> before the adapter is
  called; the \<^verbatim>\<open>catch\<close> sets it to \<^verbatim>\<open>draft\<close>.
\<close>

definition handleSubmit ::
  "platform \<Rightarrow> string \<Rightarrow> string \<Rightarrow> string \<Rightarrow> storage
     \<Rightarrow> storage \<times> message option \<times> string option" where
  "handleSubmit env title rawContent genre st =
     (if trim env title = [] then (st, Some EnterTitle, None)
      else if trim env rawContent = [] then (st, Some EnterContent, None)
      else
        let scriptId = uuidv4 env 0;
            now = toISOString env 0;
            script = \<lparr>
              script_id = scriptId,
              script_title = trim env title,
              script_rawContent = trim env rawContent,
              script_genre = (if trim env genre = [] then None else Some (trim env genre)),
              script_styleGuide = None,
              script_status = Analyzing,
              script_createdAt = now,
              script_updatedAt = now\<rparr>;
            st1 = addScript script st
        in case analyzeScript env rawContent of
             Inr result \<Rightarrow>
               let chars = charactersOfResult env 1 scriptId now result;
                   newScenes = scenesOfResult env (1 + length (ar_characters result))
                     scriptId now chars result;
                   st2 = saveAnalysisResult scriptId chars newScenes st1;
                   st3 = updateScript scriptId
                     (noScriptUpdates\<lparr>new_script_status := Some Ready,
                        new_script_styleGuide := Some (ar_styleGuide result)\<rparr>)
                     (toISOString env 1) st2
               in (st3, None, Some scriptId)
           | Inl err \<Rightarrow>
               (updateScript scriptId (noScriptUpdates\<lparr>new_script_status := Some Draft\<rparr>)
                  (toISOString env 1) st1,
                Some (case err of Error m \<Rightarrow> m | NotAnError \<Rightarrow> AnalysisError),
                None))"

text \<open>
  \<open>handleReanalyze\<close> of the script page, for the script \<open>script\<close> the page shows. The
  state is the Record Store and the error message of the page; \<open>confirmed\<close> is the
  answer to the \<^verbatim>\<open>confirm\<close> dialog. The handler writes no status before it calls the
  adapter, and its \<^verbatim>\<open>catch\<close> writes nothing to the store.
\<close>

definition handleReanalyze ::
  "platform \<Rightarrow> bool \<Rightarrow> Script \<Rightarrow> storage \<times> message option \<Rightarrow> storage \<times> message option" where
  "handleReanalyze env confirmed script state =
     (if \<not> confirmed then state
      else
        case analyzeScript env (script_rawContent script) of
          Inr result \<Rightarrow>
            let now = toISOString env 0;
                newCharacters = charactersOfResult env 0 (script_id script) now result;
                newScenes = scenesOfResult env (length (ar_characters result))
                  (script_id script) now newCharacters result;
                st2 = saveAnalysisResult (script_id script) newCharacters newScenes
                  (fst state)
            in (updateScript (script_id script)
                  (noScriptUpdates\<lparr>new_script_status := Some Ready,
                     new_script_styleGuide := Some (ar_styleGuide result)\<rparr>)
                  (toISOString env 1) st2,
                None)
        | Inl err \<Rightarrow>
            (fst state, Some (case err of Error m \<Rightarrow> m | NotAnError \<Rightarrow> AnalysisError)))"

subsection \<open>Linking by the first match, as the specification words it\<close>

text \<open>The identifiers a first-match lookup would give: for every listed name the
  identifier of the first character of that name, nothing for a name without one.\<close>

definition spec_firstMatchIds :: "Character list \<Rightarrow> string list \<Rightarrow> string list" where
  "spec_firstMatchIds chars names =
     List.map_filter (\<lambda>n. map_option char_id (find (\<lambda>c. char_name c = n) chars)) names"

section \<open>Reference images of a character (pages/Characters.tsx)\<close>

text \<open>
  Every handler of the character page works on \<open>character\<close>, the record the page
  rendered when the handler started, computes a \<^verbatim>\<open>Partial<Character>\<close> from it and
  passes it to \<open>updateCharacter\<close>, which merges it into the record that is stored at
  that moment. The store a handler takes is the store at the time of its write. Between
  the rendering and the write the handler awaits the image adapter, the file reader or
  the Blob Store, and the page keeps upload, selection and removal enabled meanwhile
  (only the generate button is disabled during a generation), so the stored record need
  not be the rendered one. Blob Store calls that stand outside a \<^verbatim>\<open>try\<close> block
  (\<^verbatim>\<open>saveCharacterImage\<close> in the upload, \<^verbatim>\<open>deleteCharacterImage\<close> in the removal) are
  taken to succeed: were one to fail, the handler would end before its update.
\<close>

definition IMAGES_PER_CHARACTER :: nat where
  "IMAGES_PER_CHARACTER = 3"

text \<open>
  \<open>handleImageUpload\<close>: \<open>files\<close> is \<^verbatim>\<open>e.target.files\<close>, each file given by the identifier
  that \<^verbatim>\<open>saveCharacterImage\<close> returns for its content. \<open>filesToProcess\<close> is the local
  constant of that name, \<^verbatim>\<open>Array.from(files).slice(0, remainingSlots)\<close>. Every file of it
  gets its own \<^verbatim>\<open>onload\<close> callback, and every callback builds its update from the same
  rendered \<open>character\<close> and passes it on when its file has been read and stored. In which
  order the callbacks get there is not fixed by the code: \<open>schedule\<close> lists the positions
  of the files of \<open>filesToProcess\<close> in the order in which their callbacks reach
  \<^verbatim>\<open>onUpdate\<close>, a permutation of \<open>[0..<length filesToProcess]\<close> (\<open>is_schedule\<close>);
  \<open>inOrder\<close> is the files in that order. \<open>clock k\<close> is the time at the \<open>k\<close>-th of these
  updates.
\<close>

definition filesToProcess :: "Character \<Rightarrow> string list \<Rightarrow> string list" where
  "filesToProcess character fs =
     (let remainingSlots = 8 - int (length (char_referenceImages character))
      in slice0 fs remainingSlots)"

definition is_schedule :: "nat \<Rightarrow> nat list \<Rightarrow> bool" where
  "is_schedule n schedule = (distinct schedule \<and> set schedule = {0..<n})"

definition inOrder :: "'a list \<Rightarrow> nat list \<Rightarrow> 'a list" where
  "inOrder xs schedule = map (\<lambda>i. xs ! i) (filter (\<lambda>i. i < length xs) schedule)"

definition handleImageUpload ::
  "(nat \<Rightarrow> string) \<Rightarrow> Character \<Rightarrow> string list option \<Rightarrow> nat list \<Rightarrow> storage
     \<Rightarrow> storage" where
  "handleImageUpload clock character files schedule st =
     (case files of
        None \<Rightarrow> st
      | Some fs \<Rightarrow>
          foldl (\<lambda>s (k, imageId).
               updateCharacter (char_id character)
                 (noCharacterUpdates\<lparr>
                    new_char_referenceImages :=
                      Some (char_referenceImages character @ [imageId]),
                    new_char_selectedImage :=
                      (if truthy (char_selectedImage character) then None
                       else Some (Some imageId))\<rparr>)
                 (clock k) s)
            st (enumerate 0 (inOrder (filesToProcess character fs) schedule)))"

text \<open>
  \<open>handleGenerateCharacterImages\<close>: \<open>attempt i\<close> is the outcome of the \<open>i\<close>-th pass of the
  loop, the identifier that \<^verbatim>\<open>saveCharacterImage\<close> returned, or what the image adapter or
  the Blob Store threw, which the loop catches. The state is the Record Store and the
  error message of the page.
\<close>

definition handleGenerateCharacterImages ::
  "(nat \<Rightarrow> exn + string) \<Rightarrow> string \<Rightarrow> Character \<Rightarrow> storage \<times> message option
     \<Rightarrow> storage \<times> message option" where
  "handleGenerateCharacterImages attempt now character state =
     (let newImageIds = foldl (\<lambda>ids i.
            case attempt i of Inr imageId \<Rightarrow> ids @ [imageId] | Inl err \<Rightarrow> ids)
            [] [0..<IMAGES_PER_CHARACTER]
      in case newImageIds of
           first # _ \<Rightarrow>
             (updateCharacter (char_id character)
                (noCharacterUpdates\<lparr>
                   new_char_referenceImages :=
                     Some (slice0 (char_referenceImages character @ newImageIds) 8),
                   new_char_selectedImage :=
                     (if truthy (char_selectedImage character) then None
                      else Some (Some first))\<rparr>)
                now (fst state),
              None)
         | [] \<Rightarrow> (fst state, Some AllImagesFailed))"

text \<open>
  \<open>handleRemoveImage\<close>: for an index outside the array \<^verbatim>\<open>imageId\<close> is \<^verbatim>\<open>undefined\<close> and
  \<^verbatim>\<open>imageId.startsWith\<close> throws before any update.
\<close>

definition handleRemoveImage :: "string \<Rightarrow> Character \<Rightarrow> nat \<Rightarrow> storage \<Rightarrow> storage" where
  "handleRemoveImage now character index st =
     (if index < length (char_referenceImages character) then
        let imageId = char_referenceImages character ! index;
            newImages = map snd (filter (\<lambda>(i, x). i \<noteq> index)
              (enumerate 0 (char_referenceImages character)))
        in updateCharacter (char_id character)
             (noCharacterUpdates\<lparr>
                new_char_referenceImages := Some newImages,
                new_char_selectedImage :=
                  (if char_selectedImage character = Some imageId then
                     Some (case newImages of
                             [] \<Rightarrow> None
                           | x # _ \<Rightarrow> if x = [] then None else Some x)
                   else None)\<rparr>)
             now st
      else st)"

text \<open>\<^verbatim>\<open>onSelectImage\<close>: a click on one of the rendered reference images.\<close>

definition onSelectImage :: "string \<Rightarrow> Character \<Rightarrow> string \<Rightarrow> storage \<Rightarrow> storage" where
  "onSelectImage now character imageId st =
     updateCharacter (char_id character)
       (noCharacterUpdates\<lparr>new_char_selectedImage := Some (Some imageId)\<rparr>) now st"

text \<open>The invariant of the specification: the selection is unset or one of the
  reference images.\<close>

definition selection_ok :: "Character \<Rightarrow> bool" where
  "selection_ok c =
     (case char_selectedImage c of
        None \<Rightarrow> True
      | Some i \<Rightarrow> i \<in> set (char_referenceImages c))"

section \<open>Batch generation for a scene (the Generate page, src/unnamed/part_001)\<close>

definition IMAGES_PER_GENERATION :: nat where
  "IMAGES_PER_GENERATION = 3"

text \<open>
  \<open>handleGenerateOne\<close> of the page for the script \<open>scriptId\<close>, from its first write to the
  Record Store to its last. \<open>attempt i\<close> is the outcome of the \<open>i\<close>-th pass of the loop:
  the identifier that \<^verbatim>\<open>saveImage\<close> returned for the image of
  \<^verbatim>\<open>generateSceneImage(prompt, referenceImages)\<close>, or what either of the two threw, which
  the loop catches and logs. The prompt and the reference images are computed once before
  the loop and reach the Record Store in no other way than through these outcomes. The
  reloading of the image caches (\<^verbatim>\<open>loadData\<close>) reads the stores and changes the display
  state only. \<open>clock k\<close> is the time at the \<open>k\<close>-th write. The state is the Record Store
  and the error message of the page.
\<close>

definition handleGenerateOne ::
  "string \<Rightarrow> (nat \<Rightarrow> exn + string) \<Rightarrow> (nat \<Rightarrow> string) \<Rightarrow> Scene \<Rightarrow> nat
     \<Rightarrow> storage \<times> message option \<Rightarrow> storage \<times> message option" where
  "handleGenerateOne scriptId attempt clock scene count state =
     (let st1 = updateScene (scene_id scene)
            (noSceneUpdates\<lparr>new_scene_status := Some Generating\<rparr>) (clock 0) (fst state);
          newImageIds = foldl (\<lambda>ids i.
            case attempt i of Inr imageId \<Rightarrow> ids @ [imageId] | Inl err \<Rightarrow> ids)
            [] [0..<count]
      in case newImageIds of
           first # _ \<Rightarrow>
             let currentScene = find (\<lambda>s. scene_id s = scene_id scene)
                   (getScenesByScript scriptId st1);
                 existingImages =
                   (case currentScene of None \<Rightarrow> [] | Some s \<Rightarrow> scene_generatedImages s)
             in (updateScene (scene_id scene)
                   (noSceneUpdates\<lparr>
                      new_scene_generatedImages := Some (existingImages @ newImageIds),
                      new_scene_selectedImage := Some (Some first),
                      new_scene_status := Some Completed\<rparr>)
                   (clock 1) st1,
                 None)
         | [] \<Rightarrow>
             (updateScene (scene_id scene)
                (noSceneUpdates\<lparr>new_scene_status := Some Failed\<rparr>) (clock 1) st1,
              Some AllImagesFailed))"

text \<open>The identifiers of the successful attempts of a run of \<open>count\<close> attempts, in the
  order of the attempts.\<close>

definition successes :: "(nat \<Rightarrow> exn + string) \<Rightarrow> nat \<Rightarrow> string list" where
  "successes attempt count =
     List.map_filter (\<lambda>i. case attempt i of Inr imageId \<Rightarrow> Some imageId | Inl err \<Rightarrow> None)
       [0..<count]"

section \<open>Example data\<close>

text \<open>A stored scene with one earlier image, and a run of three attempts of which the
  second fails.\<close>

definition demo_scene :: Scene where
  "demo_scene = \<lparr>
     scene_id = ''scene-1'', scene_scriptId = ''script-1'', scene_sceneNumber = 1,
     scene_title = None, scene_location = Some ''Cafe'', scene_timeOfDay = None,
     scene_originalText = ''Anna drinks coffee.'', scene_visualDescription = None,
     scene_generatedPrompt = None, scene_userEditedPrompt = None,
     scene_characterIds = [], scene_generatedImages = [''old-image''],
     scene_selectedImage = Some ''old-image'', scene_status = Pending,
     scene_createdAt = ''t'', scene_updatedAt = ''t''\<rparr>"

definition demo_store :: storage where
  "demo_store = \<lparr>scripts = None, characters = None, scenes = Some [demo_scene]\<rparr>"

definition demo_attempt :: "nat \<Rightarrow> exn + string" where
  "demo_attempt i =
     (if i = 0 then Inr ''image-1''
      else if i = 1 then Inl (Error (Text ''no image data''))
      else Inr ''image-3'')"

definition demo_clock :: "nat \<Rightarrow> string" where
  "demo_clock k = (if k = 0 then ''t0'' else ''t1'')"

text \<open>A stored character with six reference images, the first of them selected.\<close>

definition demo_character :: Character where
  "demo_character = \<lparr>
     char_id = ''char-1'', char_scriptId = ''script-1'', char_name = ''Anna'',
     char_appearance = \<lparr>age = Some ''20s'', gender = None, height = None, hair = None,
       face = None, skinTone = None, features = None\<rparr>,
     char_defaultOutfit = None,
     char_referenceImages = [''r1'', ''r2'', ''r3'', ''r4'', ''r5'', ''r6''],
     char_selectedImage = Some ''r1'', char_basePrompt = None,
     char_createdAt = ''t'', char_updatedAt = ''t''\<rparr>"

definition demo_character_store :: storage where
  "demo_character_store = \<lparr>scripts = None, characters = Some [demo_character], scenes = None\<rparr>"

text \<open>
  A generation that is overtaken. The page renders \<open>demo_rendered\<close>, with the one image
  \<^verbatim>\<open>a\<close>, selected, and the user starts a generation for it. While the three portraits
  are made, the user uploads the file \<^verbatim>\<open>u\<close> (\<open>demo_store_uploaded\<close>; the page then renders
  \<open>demo_rerendered\<close>) and selects it (\<open>demo_store_selected\<close>). Then the generation, whose
  three attempts succeed, writes its update, built from \<open>demo_rendered\<close>.
\<close>

definition demo_rendered :: Character where
  "demo_rendered = \<lparr>
     char_id = ''char-2'', char_scriptId = ''script-1'', char_name = ''Bob'',
     char_appearance = \<lparr>age = None, gender = None, height = None, hair = None,
       face = None, skinTone = None, features = None\<rparr>,
     char_defaultOutfit = None,
     char_referenceImages = [''a''],
     char_selectedImage = Some ''a'', char_basePrompt = None,
     char_createdAt = ''t'', char_updatedAt = ''t''\<rparr>"

definition demo_rerendered :: Character where
  "demo_rerendered = demo_rendered\<lparr>char_referenceImages := [''a'', ''u''],
     char_updatedAt := ''t0''\<rparr>"

definition demo_store_rendered :: storage where
  "demo_store_rendered = \<lparr>scripts = None, characters = Some [demo_rendered], scenes = None\<rparr>"

definition demo_store_uploaded :: storage where
  "demo_store_uploaded =
     handleImageUpload demo_clock demo_rendered (Some [''u'']) [0] demo_store_rendered"

definition demo_store_selected :: storage where
  "demo_store_selected = onSelectImage ''t1'' demo_rerendered ''u'' demo_store_uploaded"

definition demo_portraits :: "nat \<Rightarrow> exn + string" where
  "demo_portraits i = (if i = 0 then Inr ''g1'' else if i = 1 then Inr ''g2'' else Inr ''g3'')"

text \<open>A platform whose analysis adapter fails on a response that is not JSON; an
  analysis result with two characters of the same name; and one with a single character
  and scenes that list her name, an unknown name, and her name in another case.\<close>

definition demo_env :: platform where
  "demo_env = \<lparr>
     trim = (\<lambda>s. s),
     uuidv4 = (\<lambda>k. if k = 0 then ''id-0'' else if k = 1 then ''id-1''
                     else if k = 2 then ''id-2'' else ''id-3''),
     toISOString = demo_clock,
     analyzeScript = (\<lambda>content. Inl (Error (Text ''Unexpected end of JSON input'')))\<rparr>"

definition demo_twins :: AnalysisResult where
  "demo_twins = \<lparr>
     ar_characters =
       [\<lparr>ac_name = ''Anna'',
         ac_appearance = \<lparr>age = Some ''20s'', gender = None, height = None, hair = None,
           face = None, skinTone = None, features = None\<rparr>,
         ac_defaultOutfit = None\<rparr>,
        \<lparr>ac_name = ''Anna'',
         ac_appearance = \<lparr>age = Some ''60s'', gender = None, height = None, hair = None,
           face = None, skinTone = None, features = None\<rparr>,
         ac_defaultOutfit = None\<rparr>],
     ar_scenes =
       [\<lparr>as_sceneNumber = 1, as_title = None, as_location = None, as_timeOfDay = None,
         as_originalText = ''Anna drinks coffee.'', as_visualDescription = ''A cafe.'',
         as_characterNames = [''Anna'']\<rparr>],
     ar_styleGuide = None\<rparr>"

definition demo_cafe :: AnalysisResult where
  "demo_cafe = \<lparr>
     ar_characters =
       [\<lparr>ac_name = ''Anna'',
         ac_appearance = \<lparr>age = Some ''20s'', gender = None, height = None, hair = None,
           face = None, skinTone = None, features = None\<rparr>,
         ac_defaultOutfit = None\<rparr>],
     ar_scenes =
       [\<lparr>as_sceneNumber = 1, as_title = None, as_location = Some ''Cafe'',
         as_timeOfDay = Some ''day'', as_originalText = ''Anna drinks coffee.'',
         as_visualDescription = ''A cafe.'', as_characterNames = [''Anna'']\<rparr>,
        \<lparr>as_sceneNumber = 2, as_title = None, as_location = None, as_timeOfDay = None,
         as_originalText = ''Bob waves.'', as_visualDescription = ''A street.'',
         as_characterNames = [''Bob'']\<rparr>,
        \<lparr>as_sceneNumber = 3, as_title = None, as_location = None, as_timeOfDay = None,
         as_originalText = ''anna leaves.'', as_visualDescription = ''A door.'',
         as_characterNames = [''anna'']\<rparr>],
     ar_styleGuide = None\<rparr>"

section \<open>Properties of the Record Store\<close>

lemma load_save_simps:
  "loadScripts (saveScripts xs st) = xs"
  "loadScripts (saveCharacters cs st) = loadScripts st"
  "loadScripts (saveScenes ns st) = loadScripts st"
  "loadCharacters (saveCharacters cs st) = cs"
  "loadCharacters (saveScripts xs st) = loadCharacters st"
  "loadCharacters (saveScenes ns st) = loadCharacters st"
  "loadScenes (saveScenes ns st) = ns"
  "loadScenes (saveScripts xs st) = loadScenes st"
  "loadScenes (saveCharacters cs st) = loadScenes st"
  by (simp_all add: loadScripts_def saveScripts_def loadCharacters_def saveCharacters_def
      loadScenes_def saveScenes_def)

text \<open>Saving under one key leaves what the other keys load as it was; with the round
  trip below this is what the decoded store of the three collections stands for.\<close>

lemma saveData_other_key:
  "key' \<noteq> key \<Longrightarrow> loadData parse key' (saveData stringify key X ls) = loadData parse key' ls"
  by (simp add: loadData_def saveData_def)

text \<open>
  Claim C9. For every collection key and every array \<open>X\<close> that the JSON functions carry
  through unchanged (\<open>parse (stringify X)\<close> is \<open>X\<close>; the text of an array is never
  empty), \<open>saveData\<close> of \<open>X\<close> under the key followed by \<open>loadData\<close> of the key returns
  \<open>X\<close>, whatever the store held before.
\<close>

theorem saveData_loadData_roundtrip:
  assumes "parse (stringify X) = Inr X" and "stringify X \<noteq> []"
  shows "loadData parse collection (saveData stringify collection X ls) = Inr (Some X)"
  using assms by (simp add: loadData_def saveData_def)

theorem saveData_loadData_roundtrip_witness:
  "loadData (\<lambda>t. if t = ''[a,b]'' then Inr [''a'', ''b''] else Inl SyntaxError) ''scripts''
     (saveData (\<lambda>xs. ''['' @ join '','' xs @ '']'') ''scripts'' [''a'', ''b''] Map.empty)
   = Inr (Some [''a'', ''b''])"
  using saveData_loadData_roundtrip
    [of "\<lambda>t. if t = ''[a,b]'' then Inr [''a'', ''b''] else Inl SyntaxError"
        "\<lambda>xs. ''['' @ join '','' xs @ '']''" "[''a'', ''b'']" "''scripts''" Map.empty]
  by simp

text \<open>
  Claim C6. Deleting the Script \<open>S\<close> leaves in each collection exactly the records that
  do not belong to \<open>S\<close>, unchanged and in their stored order: the scripts whose id is not
  \<open>S\<close>, the characters and the scenes whose \<open>scriptId\<close> is not \<open>S\<close>. So every record of
  \<open>S\<close> is gone and every other record is kept as it was.
\<close>

theorem deleteScript_cascade:
  "loadScripts (deleteScript S st) = filter (\<lambda>s. script_id s \<noteq> S) (loadScripts st)
   \<and> loadCharacters (deleteScript S st) = filter (\<lambda>c. char_scriptId c \<noteq> S) (loadCharacters st)
   \<and> loadScenes (deleteScript S st) = filter (\<lambda>s. scene_scriptId s \<noteq> S) (loadScenes st)"
  by (simp add: deleteScript_def Let_def load_save_simps)

text \<open>
  Claim C10. After \<open>saveAnalysisResult S newCharacters newScenes\<close> the character
  collection is the previously stored characters of the other scripts, in their previous
  order, followed by \<open>newCharacters\<close>; likewise for the scenes. The previously stored
  records of \<open>S\<close> are not in the result (whatever reference images they carried), and the
  scripts collection is not touched.
\<close>

theorem saveAnalysisResult_replaces:
  "loadCharacters (saveAnalysisResult S newCharacters newScenes st)
     = filter (\<lambda>c. char_scriptId c \<noteq> S) (loadCharacters st) @ newCharacters
   \<and> loadScenes (saveAnalysisResult S newCharacters newScenes st)
     = filter (\<lambda>s. scene_scriptId s \<noteq> S) (loadScenes st) @ newScenes
   \<and> loadScripts (saveAnalysisResult S newCharacters newScenes st) = loadScripts st"
  by (simp add: saveAnalysisResult_def Let_def load_save_simps)

section \<open>Lists and the update functions\<close>

lemma findIndex_Some:
  "findIndex P xs = Some k \<Longrightarrow> k < length xs \<and> P (xs ! k) \<and> find P xs = Some (xs ! k)"
proof (induction xs arbitrary: k)
  case Nil
  then show ?case by simp
next
  case (Cons x xs)
  show ?case
  proof (cases "P x")
    case True
    with Cons.prems show ?thesis by simp
  next
    case False
    with Cons.prems obtain j where j: "findIndex P xs = Some j" "k = Suc j"
      by auto
    with Cons.IH [of j] False show ?thesis by simp
  qed
qed

lemma findIndex_None: "findIndex P xs = None \<Longrightarrow> find P xs = None"
  by (induction xs) (auto split: if_splits)

lemma find_list_update:
  "findIndex P xs = Some k \<Longrightarrow> P y \<Longrightarrow> find P (xs[k := y]) = Some y"
proof (induction xs arbitrary: k)
  case Nil
  then show ?case by simp
next
  case (Cons x xs)
  show ?case
  proof (cases "P x")
    case True
    with Cons.prems show ?thesis by simp
  next
    case False
    with Cons.prems obtain j where j: "findIndex P xs = Some j" "k = Suc j"
      by auto
    with Cons.IH [of j] Cons.prems(2) False show ?thesis by simp
  qed
qed

lemma find_SomeD: "find P xs = Some x \<Longrightarrow> x \<in> set xs \<and> P x"
  by (induction xs) (auto split: if_splits)

lemma find_unique:
  assumes "distinct (map f xs)" and "x \<in> set ys" and "set ys \<subseteq> set xs"
  shows "find (\<lambda>y. f y = f x) ys = Some x"
proof (cases "find (\<lambda>y. f y = f x) ys")
  case None
  with assms(2) show ?thesis by (auto simp: find_None_iff)
next
  case (Some y)
  then have "y \<in> set ys" and "f y = f x"
    by (auto simp: find_Some_iff)
  moreover have "inj_on f (set xs)"
    using assms(1) by (simp add: distinct_map)
  ultimately have "y = x"
    using assms(2,3) by (auto dest: inj_onD)
  with Some show ?thesis by simp
qed

lemma scene_id_mergeScene:
  "new_scene_id u = None \<Longrightarrow> scene_id (mergeScene s u now) = scene_id s"
  by (simp add: mergeScene_def)

lemma loadScenes_updateScene:
  "loadScenes (updateScene i u now st) =
     (case findIndex (\<lambda>s. scene_id s = i) (loadScenes st) of
        None \<Rightarrow> loadScenes st
      | Some k \<Rightarrow> (loadScenes st)[k := mergeScene (loadScenes st ! k) u now])"
  by (simp add: updateScene_def Let_def load_save_simps split: option.splits)

lemma getScene_updateScene:
  assumes "new_scene_id u = None"
  shows "getScene i (updateScene i u now st) =
         map_option (\<lambda>s. mergeScene s u now) (getScene i st)"
proof (cases "findIndex (\<lambda>s. scene_id s = i) (loadScenes st)")
  case None
  then show ?thesis
    by (simp add: getScene_def loadScenes_updateScene findIndex_None)
next
  case (Some k)
  from findIndex_Some [OF Some]
  have k: "scene_id (loadScenes st ! k) = i"
    "find (\<lambda>s. scene_id s = i) (loadScenes st) = Some (loadScenes st ! k)"
    by simp_all
  have "scene_id (mergeScene (loadScenes st ! k) u now) = i"
    using k(1) assms by (simp add: scene_id_mergeScene)
  from find_list_update [OF Some, of "mergeScene (loadScenes st ! k) u now"] this
  show ?thesis
    using Some k(2) by (simp add: getScene_def loadScenes_updateScene)
qed

lemma ids_updateScene:
  assumes "new_scene_id u = None"
  shows "map scene_id (loadScenes (updateScene i u now st)) = map scene_id (loadScenes st)"
proof (cases "findIndex (\<lambda>s. scene_id s = i) (loadScenes st)")
  case None
  then show ?thesis by (simp add: loadScenes_updateScene)
next
  case (Some k)
  from findIndex_Some [OF Some] have "k < length (loadScenes st)" by simp
  then show ?thesis
    using Some assms
    by (simp add: loadScenes_updateScene map_update scene_id_mergeScene list_update_same_conv)
qed

lemma getScene_member: "getScene i st = Some s \<Longrightarrow> s \<in> set (loadScenes st) \<and> scene_id s = i"
  by (auto simp: getScene_def find_Some_iff)

lemma foldl_successes:
  "foldl (\<lambda>ids i. case attempt i of Inr imageId \<Rightarrow> ids @ [imageId] | Inl err \<Rightarrow> ids) acc ks
   = acc @ List.map_filter (\<lambda>i. case attempt i of Inr imageId \<Rightarrow> Some imageId | Inl err \<Rightarrow> None) ks"
  by (induction ks arbitrary: acc) (auto simp: List.map_filter_simps split: sum.splits)

section \<open>Properties of the Prompt Assembler\<close>

text \<open>A scene whose \<open>userEditedPrompt\<close> is set to the empty string does not get the
  empty string back: \<^verbatim>\<open>if (scene.userEditedPrompt)\<close> is false for it and the prompt is
  generated.\<close>

theorem buildScenePrompt_empty_override_counterexample:
  "buildScenePrompt \<lparr>location = None, timeOfDay = None, visualDescription = None,
      userEditedPrompt = Some []\<rparr> [] Realistic \<noteq> []"
  by (simp add: buildScenePrompt_def truthy_def)

text \<open>
  Claim C4, amended. \<open>buildScenePrompt\<close> is a function of its three arguments and of
  nothing else. For every scene whose \<open>userEditedPrompt\<close> is set to a string that is not
  empty it returns exactly that string, whatever the other fields, the characters and
  the style are. (An empty \<open>userEditedPrompt\<close> counts as unset: see the counterexample
  above.)
\<close>

theorem buildScenePrompt_override:
  assumes "userEditedPrompt scene = Some p" and "p \<noteq> []"
  shows "buildScenePrompt scene chars style = p"
  using assms by (simp add: buildScenePrompt_def truthy_def)

theorem buildScenePrompt_override_witness:
  "buildScenePrompt \<lparr>location = Some ''cafe'', timeOfDay = None, visualDescription = None,
      userEditedPrompt = Some ''two cats''\<rparr> [] Anime = ''two cats''"
  using buildScenePrompt_override
    [of "\<lparr>location = Some ''cafe'', timeOfDay = None, visualDescription = None,
      userEditedPrompt = Some ''two cats''\<rparr>" "''two cats''" "[]" Anime]
  by simp

lemma join_commas: "join '', '' xs = commas xs"
  by (induction xs rule: commas.induct) simp_all

lemma join_lines: "join ''\<newline>'' xs = spec_lines xs"
  by (induction xs rule: spec_lines.induct) simp_all

lemma orElse_present: "orElse v d = (case present v of [] \<Rightarrow> d | x # _ \<Rightarrow> x)"
  by (cases v) (simp_all add: orElse_def)

lemma truthy_features:
  "map the (filter truthy (map Some fs)) = concat (map (\<lambda>f. present (Some f)) fs)"
  by (induction fs) (simp_all add: truthy_def)

lemma truthy_fields:
  "map the (filter truthy ([age app, gender app, height app, hair app, face app, skinTone app]
      @ map Some (case features app of None \<Rightarrow> [] | Some fs \<Rightarrow> fs)))
   = spec_fields app"
proof -
  have split: "map the (filter truthy (v # vs)) = present v @ map the (filter truthy vs)"
    for v vs
    by (cases v) (simp_all add: truthy_def)
  show ?thesis
    unfolding spec_fields_def append.simps split
    by (simp add: truthy_features)
qed

lemma character_line:
  "(\<lambda>char. ''- '' @ name char @ '': '' @ commas (spec_fields (appearance char))
      @ ''. Outfit: '' @ orElse (defaultOutfit char) ''casual'') = spec_character_line"
  by (rule ext) (simp add: spec_character_line_def orElse_present)

text \<open>The five styles have five different phrases.\<close>

lemma getStyleModifier_inj: "getStyleModifier s = getStyleModifier s' \<Longrightarrow> s = s'"
  by (cases s; cases s'; simp)

text \<open>
  Claim C5. For every scene whose \<open>userEditedPrompt\<close> is unset (or empty)
  \<open>buildScenePrompt\<close> returns \<open>spec_prompt\<close>: the style phrase of \<open>getStyleModifier\<close>, the
  scene section with the location or \<^verbatim>\<open>unspecified\<close> and the time or \<^verbatim>\<open>day\<close>, one line
  per character with its non-empty appearance fields in the order age, gender, height,
  hair, face, skin tone, features, joined by commas, and the outfit or \<^verbatim>\<open>casual\<close>, the
  description or \<^verbatim>\<open>No description\<close>, and the closing block, each separated from the next
  by an empty line. The phrase is specific to the style: it is one of five fixed
  strings, a different one for each of the five styles, so that the prompts of two
  different styles differ, and they differ in nothing but the phrase they start with.
\<close>

theorem buildScenePrompt_generated:
  assumes "\<not> truthy (userEditedPrompt scene)"
  shows "buildScenePrompt scene chars style = spec_prompt scene chars style
    \<and> map getStyleModifier [Realistic, Anime, Cinematic, Watercolor, Comic] =
        [''Photorealistic, high-resolution photograph, natural lighting, realistic skin texture, shot on professional camera, 8K quality'',
         ''Japanese anime style, vibrant colors, clean line art, expressive eyes, detailed background, Studio Ghibli quality'',
         ''Cinematic movie still, dramatic lighting, shallow depth of field, anamorphic lens flare, film grain, Hollywood production quality'',
         ''Soft watercolor painting, delicate brush strokes, gentle color blending, artistic and dreamy atmosphere'',
         ''Comic book style, bold outlines, dynamic composition, graphic novel aesthetic, cel shading'']
    \<and> inj getStyleModifier
    \<and> (\<forall>style'. buildScenePrompt scene chars style' = buildScenePrompt scene chars style
          \<longrightarrow> style' = style)
    \<and> (\<forall>style'. \<exists>rest. buildScenePrompt scene chars style = getStyleModifier style @ rest
          \<and> buildScenePrompt scene chars style' = getStyleModifier style' @ rest)"
proof -
  have generated: "buildScenePrompt scene chars s = spec_prompt scene chars s" for s
  proof -
    have "buildScenePrompt scene chars s =
        getStyleModifier s
        @ ''\<newline>\<newline>SCENE:\<newline>- Location: '' @ orElse (location scene) ''unspecified''
        @ ''\<newline>- Time: '' @ orElse (timeOfDay scene) ''day''
        @ ''\<newline>\<newline>CHARACTERS (match the reference images exactly):\<newline>''
        @ spec_lines (map spec_character_line chars)
        @ ''\<newline>\<newline>SCENE DESCRIPTION:\<newline>''
        @ orElse (visualDescription scene) ''No description''
        @ ''\<newline>\<newline>CRITICAL REQUIREMENTS:\<newline>''
        @ ''- Characters MUST match the provided reference images exactly\<newline>''
        @ ''- Maintain consistent facial features, hair style, and body proportions\<newline>''
        @ ''- Follow the specified art style strictly\<newline>''
        @ ''- High quality, professional composition''"
      using assms
      by (simp only: buildScenePrompt_def if_False Let_def truthy_fields join_commas join_lines
          character_line)
    also have "\<dots> = spec_prompt scene chars s"
      by (simp add: spec_prompt_def spec_scene_section_def spec_character_section_def
          spec_description_section_def spec_closing_block_def orElse_present)
    finally show ?thesis .
  qed
  define rest where "rest = ''\<newline>\<newline>''
     @ spec_scene_section scene @ ''\<newline>\<newline>''
     @ spec_character_section chars @ ''\<newline>\<newline>''
     @ spec_description_section scene @ ''\<newline>\<newline>''
     @ spec_closing_block"
  have split: "buildScenePrompt scene chars s = getStyleModifier s @ rest" for s
    by (simp only: generated spec_prompt_def rest_def)
  have specific: "style' = style"
    if "buildScenePrompt scene chars style' = buildScenePrompt scene chars style" for style'
  proof -
    from that have "getStyleModifier style' @ rest = getStyleModifier style @ rest"
      by (simp only: split)
    then have "getStyleModifier style' = getStyleModifier style"
      by (simp only: append_same_eq)
    then show ?thesis by (rule getStyleModifier_inj)
  qed
  have phrases: "map getStyleModifier [Realistic, Anime, Cinematic, Watercolor, Comic] =
        [''Photorealistic, high-resolution photograph, natural lighting, realistic skin texture, shot on professional camera, 8K quality'',
         ''Japanese anime style, vibrant colors, clean line art, expressive eyes, detailed background, Studio Ghibli quality'',
         ''Cinematic movie still, dramatic lighting, shallow depth of field, anamorphic lens flare, film grain, Hollywood production quality'',
         ''Soft watercolor painting, delicate brush strokes, gentle color blending, artistic and dreamy atmosphere'',
         ''Comic book style, bold outlines, dynamic composition, graphic novel aesthetic, cel shading'']"
    by simp
  have "inj getStyleModifier"
    by (rule injI) (rule getStyleModifier_inj)
  with generated [of style] phrases specific split show ?thesis
    by (intro conjI allI impI exI [of _ rest]) assumption+
qed

theorem buildScenePrompt_generated_witness:
  "map (buildScenePrompt
     \<lparr>location = Some ''Cafe'', timeOfDay = None, visualDescription = None,
      userEditedPrompt = None\<rparr>
     [\<lparr>name = ''Anna'',
       appearance = \<lparr>age = Some ''20s'', gender = None, height = Some [], hair = Some ''red'',
         face = None, skinTone = None, features = Some [''scar'', [], ''hat'']\<rparr>,
       defaultOutfit = None\<rparr>])
     [Realistic, Anime, Cinematic, Watercolor, Comic]
   = map (\<lambda>phrase. phrase @ ''\<newline>\<newline>SCENE:\<newline>- Location: Cafe\<newline>- Time: day\<newline>\<newline>CHARACTERS (match the reference images exactly):\<newline>- Anna: 20s, red, scar, hat. Outfit: casual\<newline>\<newline>SCENE DESCRIPTION:\<newline>No description\<newline>\<newline>CRITICAL REQUIREMENTS:\<newline>- Characters MUST match the provided reference images exactly\<newline>- Maintain consistent facial features, hair style, and body proportions\<newline>- Follow the specified art style strictly\<newline>- High quality, professional composition'')
     [''Photorealistic, high-resolution photograph, natural lighting, realistic skin texture, shot on professional camera, 8K quality'',
      ''Japanese anime style, vibrant colors, clean line art, expressive eyes, detailed background, Studio Ghibli quality'',
      ''Cinematic movie still, dramatic lighting, shallow depth of field, anamorphic lens flare, film grain, Hollywood production quality'',
      ''Soft watercolor painting, delicate brush strokes, gentle color blending, artistic and dreamy atmosphere'',
      ''Comic book style, bold outlines, dynamic composition, graphic novel aesthetic, cel shading'']"
proof -
  define scene where "scene = \<lparr>location = Some ''Cafe'', timeOfDay = None,
      visualDescription = None, userEditedPrompt = None\<rparr>"
  define chars where "chars = [\<lparr>name = ''Anna'',
       appearance = \<lparr>age = Some ''20s'', gender = None, height = Some [], hair = Some ''red'',
         face = None, skinTone = None, features = Some [''scar'', [], ''hat'']\<rparr>,
       defaultOutfit = None\<rparr>]"
  have unset: "\<not> truthy (userEditedPrompt scene)"
    by (simp add: scene_def truthy_def)
  have "buildScenePrompt scene chars s = spec_prompt scene chars s" for s
    by (rule buildScenePrompt_generated [OF unset, THEN conjunct1])
  then have "map (buildScenePrompt scene chars) [Realistic, Anime, Cinematic, Watercolor, Comic]
      = map (spec_prompt scene chars) [Realistic, Anime, Cinematic, Watercolor, Comic]"
    by simp
  also have "\<dots> = map (\<lambda>phrase. phrase @ ''\<newline>\<newline>SCENE:\<newline>- Location: Cafe\<newline>- Time: day\<newline>\<newline>CHARACTERS (match the reference images exactly):\<newline>- Anna: 20s, red, scar, hat. Outfit: casual\<newline>\<newline>SCENE DESCRIPTION:\<newline>No description\<newline>\<newline>CRITICAL REQUIREMENTS:\<newline>- Characters MUST match the provided reference images exactly\<newline>- Maintain consistent facial features, hair style, and body proportions\<newline>- Follow the specified art style strictly\<newline>- High quality, professional composition'')
     [''Photorealistic, high-resolution photograph, natural lighting, realistic skin texture, shot on professional camera, 8K quality'',
      ''Japanese anime style, vibrant colors, clean line art, expressive eyes, detailed background, Studio Ghibli quality'',
      ''Cinematic movie still, dramatic lighting, shallow depth of field, anamorphic lens flare, film grain, Hollywood production quality'',
      ''Soft watercolor painting, delicate brush strokes, gentle color blending, artistic and dreamy atmosphere'',
      ''Comic book style, bold outlines, dynamic composition, graphic novel aesthetic, cel shading'']"
    by (simp add: scene_def chars_def spec_prompt_def spec_scene_section_def
        spec_character_section_def spec_description_section_def spec_closing_block_def
        spec_character_line_def spec_fields_def)
  finally show ?thesis
    unfolding scene_def chars_def .
qed

section \<open>Properties of the batch generation for a scene\<close>

lemma getScene_unique:
  assumes "distinct (map scene_id (loadScenes st))" and "s \<in> set (loadScenes st)"
  shows "getScene (scene_id s) st = Some s"
  unfolding getScene_def using assms by (intro find_unique [where xs = "loadScenes st"]) auto

lemma current_scene:
  assumes "distinct (map scene_id (loadScenes st))" and "s \<in> set (loadScenes st)"
  shows "find (\<lambda>x. scene_id x = scene_id s) (getScenesByScript (scene_scriptId s) st) = Some s"
  unfolding getScenesByScript_def using assms
  by (intro find_unique [where xs = "loadScenes st"]) auto

lemma handleGenerateOne_run:
  assumes ids: "distinct (map scene_id (loadScenes st))"
    and stored: "s0 \<in> set (loadScenes st)"
    and same_id: "scene_id s0 = scene_id scene"
    and same_script: "scene_scriptId s0 = scriptId"
    and run: "handleGenerateOne scriptId attempt clock scene count (st, e) = (st', e')"
  shows "(if successes attempt count = [] then
        getScene (scene_id scene) st'
          = Some (s0\<lparr>scene_status := Failed, scene_updatedAt := clock 1\<rparr>)
        \<and> e' = Some AllImagesFailed
      else
        getScene (scene_id scene) st'
          = Some (s0\<lparr>scene_generatedImages :=
                      scene_generatedImages s0 @ successes attempt count,
                    scene_selectedImage := Some (hd (successes attempt count)),
                    scene_status := Completed,
                    scene_updatedAt := clock 1\<rparr>)
        \<and> e' = None)"
proof -
  define u1 where "u1 = noSceneUpdates\<lparr>new_scene_status := Some Generating\<rparr>"
  define st1 where "st1 = updateScene (scene_id scene) u1 (clock 0) st"
  define s1 where "s1 = mergeScene s0 u1 (clock 0)"
  have u1: "new_scene_id u1 = None"
    by (simp add: u1_def noSceneUpdates_def)
  have g0: "getScene (scene_id scene) st = Some s0"
    using getScene_unique [OF ids stored] same_id by simp
  have g1: "getScene (scene_id scene) st1 = Some s1"
    by (simp add: st1_def s1_def getScene_updateScene [OF u1] g0)
  have ids1: "distinct (map scene_id (loadScenes st1))"
    by (simp add: st1_def ids_updateScene [OF u1] ids)
  have s1_in: "s1 \<in> set (loadScenes st1)"
    using getScene_member [OF g1] by simp
  have s1_fields: "scene_id s1 = scene_id scene" "scene_scriptId s1 = scriptId"
    "scene_generatedImages s1 = scene_generatedImages s0"
    using same_id same_script by (simp_all add: s1_def u1_def mergeScene_def noSceneUpdates_def)
  have new: "foldl (\<lambda>ids i. case attempt i of Inr imageId \<Rightarrow> ids @ [imageId] | Inl err \<Rightarrow> ids)
      [] [0..<count] = successes attempt count"
    by (simp add: foldl_successes successes_def)
  show ?thesis
  proof (cases "successes attempt count")
    case Nil
    define uF where "uF = noSceneUpdates\<lparr>new_scene_status := Some Failed\<rparr>"
    have uF: "new_scene_id uF = None"
      by (simp add: uF_def noSceneUpdates_def)
    have "st' = updateScene (scene_id scene) uF (clock 1) st1" and "e' = Some AllImagesFailed"
      using run Nil
      by (simp_all add: handleGenerateOne_def Let_def new st1_def u1_def uF_def)
    moreover have "mergeScene s1 uF (clock 1)
        = s0\<lparr>scene_status := Failed, scene_updatedAt := clock 1\<rparr>"
      by (simp add: s1_def u1_def uF_def mergeScene_def noSceneUpdates_def)
    ultimately show ?thesis
      using Nil by (simp add: getScene_updateScene [OF uF] g1)
  next
    case (Cons first rest)
    define uC where "uC = noSceneUpdates\<lparr>
        new_scene_generatedImages := Some (scene_generatedImages s0 @ successes attempt count),
        new_scene_selectedImage := Some (Some first),
        new_scene_status := Some Completed\<rparr>"
    have uC: "new_scene_id uC = None"
      by (simp add: uC_def noSceneUpdates_def)
    have cur: "find (\<lambda>s. scene_id s = scene_id scene) (getScenesByScript scriptId st1) = Some s1"
      using current_scene [OF ids1 s1_in] s1_fields by simp
    have "st' = updateScene (scene_id scene) uC (clock 1) st1" and "e' = None"
      using run Cons
      by (simp_all add: handleGenerateOne_def Let_def new cur s1_fields uC_def
          flip: st1_def u1_def)
    moreover have "mergeScene s1 uC (clock 1)
        = s0\<lparr>scene_generatedImages := scene_generatedImages s0 @ successes attempt count,
              scene_selectedImage := Some (hd (successes attempt count)),
              scene_status := Completed,
              scene_updatedAt := clock 1\<rparr>"
      using Cons by (simp add: s1_def u1_def uC_def mergeScene_def noSceneUpdates_def)
    ultimately show ?thesis
      using Cons by (simp add: getScene_updateScene [OF uC] g1)
  qed
qed

text \<open>
  Claim C1. Take a run of \<open>count\<close> attempts (\<open>IMAGES_PER_GENERATION\<close>, 3, by default) for
  a scene that is stored under the page's script, in a store whose scenes have distinct
  identifiers. If at least one attempt succeeds, the stored scene afterwards is the
  scene as stored before with the identifiers of the successful attempts appended to
  \<open>generatedImages\<close> in the order of the attempts, \<open>selectedImage\<close> set to the first of
  them (whatever was selected before) and status \<^verbatim>\<open>completed\<close>, and no error is shown.
  If no attempt succeeds, the stored scene has status \<^verbatim>\<open>failed\<close>, its images and
  selection are as before, and the page shows the error that all generations failed.
  In particular, when of three attempts the first and the third succeed and the second
  fails, the scene ends \<^verbatim>\<open>completed\<close> with exactly the two new images appended, the first
  before the third.
\<close>

theorem handleGenerateOne_outcome:
  assumes ids: "distinct (map scene_id (loadScenes st))"
    and stored: "s0 \<in> set (loadScenes st)"
    and same_id: "scene_id s0 = scene_id scene"
    and same_script: "scene_scriptId s0 = scriptId"
    and run: "handleGenerateOne scriptId attempt clock scene count (st, e) = (st', e')"
  shows "(if successes attempt count = [] then
        getScene (scene_id scene) st'
          = Some (s0\<lparr>scene_status := Failed, scene_updatedAt := clock 1\<rparr>)
        \<and> e' = Some AllImagesFailed
      else
        getScene (scene_id scene) st'
          = Some (s0\<lparr>scene_generatedImages :=
                      scene_generatedImages s0 @ successes attempt count,
                    scene_selectedImage := Some (hd (successes attempt count)),
                    scene_status := Completed,
                    scene_updatedAt := clock 1\<rparr>)
        \<and> e' = None)
    \<and> (count = 3 \<and> attempt 0 = Inr a \<and> attempt 1 = Inl x \<and> attempt 2 = Inr b \<longrightarrow>
        getScene (scene_id scene) st'
          = Some (s0\<lparr>scene_generatedImages := scene_generatedImages s0 @ [a, b],
                    scene_selectedImage := Some a,
                    scene_status := Completed,
                    scene_updatedAt := clock 1\<rparr>)
        \<and> e' = None)"
proof (intro conjI impI)
  note general = handleGenerateOne_run [OF ids stored same_id same_script run]
  show "if successes attempt count = [] then
        getScene (scene_id scene) st'
          = Some (s0\<lparr>scene_status := Failed, scene_updatedAt := clock 1\<rparr>)
        \<and> e' = Some AllImagesFailed
      else
        getScene (scene_id scene) st'
          = Some (s0\<lparr>scene_generatedImages :=
                      scene_generatedImages s0 @ successes attempt count,
                    scene_selectedImage := Some (hd (successes attempt count)),
                    scene_status := Completed,
                    scene_updatedAt := clock 1\<rparr>)
        \<and> e' = None"
    by (rule general)
  assume "count = 3 \<and> attempt 0 = Inr a \<and> attempt 1 = Inl x \<and> attempt 2 = Inr b"
  then have "successes attempt count = [a, b]"
    by (simp add: successes_def List.map_filter_simps numeral_3_eq_3 numeral_2_eq_2)
  with general
  show "getScene (scene_id scene) st'
          = Some (s0\<lparr>scene_generatedImages := scene_generatedImages s0 @ [a, b],
                    scene_selectedImage := Some a,
                    scene_status := Completed,
                    scene_updatedAt := clock 1\<rparr>)"
    and "e' = None"
    by simp_all
qed

lemma demo_successes: "successes demo_attempt IMAGES_PER_GENERATION = [''image-1'', ''image-3'']"
  by (simp add: successes_def IMAGES_PER_GENERATION_def demo_attempt_def
      List.map_filter_simps numeral_3_eq_3)

theorem handleGenerateOne_outcome_witness:
  "getScene ''scene-1'' (fst (handleGenerateOne ''script-1'' demo_attempt demo_clock demo_scene
       IMAGES_PER_GENERATION (demo_store, None)))
     = Some (demo_scene\<lparr>
         scene_generatedImages := [''old-image'', ''image-1'', ''image-3''],
         scene_selectedImage := Some ''image-1'',
         scene_status := Completed,
         scene_updatedAt := ''t1''\<rparr>)
   \<and> snd (handleGenerateOne ''script-1'' demo_attempt demo_clock demo_scene
       IMAGES_PER_GENERATION (demo_store, None)) = None"
  using handleGenerateOne_outcome [where st = demo_store and ?s0.0 = demo_scene
      and scene = demo_scene and scriptId = "''script-1''" and attempt = demo_attempt
      and clock = demo_clock and count = IMAGES_PER_GENERATION and e = None
      and st' = "fst (handleGenerateOne ''script-1'' demo_attempt demo_clock demo_scene
         IMAGES_PER_GENERATION (demo_store, None))"
      and e' = "snd (handleGenerateOne ''script-1'' demo_attempt demo_clock demo_scene
         IMAGES_PER_GENERATION (demo_store, None))"
      and a = "''image-1''" and x = "Error (Text ''no image data'')" and b = "''image-3''",
      THEN conjunct1]
  by (simp add: demo_successes demo_store_def loadScenes_def demo_scene_def demo_clock_def)

section \<open>Properties of the reference images of a character\<close>

lemma char_id_mergeCharacter:
  "new_char_id u = None \<Longrightarrow> char_id (mergeCharacter c u now) = char_id c"
  by (simp add: mergeCharacter_def)

lemma loadCharacters_updateCharacter:
  "loadCharacters (updateCharacter i u now st) =
     (case findIndex (\<lambda>c. char_id c = i) (loadCharacters st) of
        None \<Rightarrow> loadCharacters st
      | Some k \<Rightarrow> (loadCharacters st)[k := mergeCharacter (loadCharacters st ! k) u now])"
  by (simp add: updateCharacter_def Let_def load_save_simps split: option.splits)

lemma getCharacter_updateCharacter:
  assumes "new_char_id u = None"
  shows "getCharacter i (updateCharacter i u now st) =
         map_option (\<lambda>c. mergeCharacter c u now) (getCharacter i st)"
proof (cases "findIndex (\<lambda>c. char_id c = i) (loadCharacters st)")
  case None
  then show ?thesis
    by (simp add: getCharacter_def loadCharacters_updateCharacter findIndex_None)
next
  case (Some k)
  from findIndex_Some [OF Some]
  have k: "char_id (loadCharacters st ! k) = i"
    "find (\<lambda>c. char_id c = i) (loadCharacters st) = Some (loadCharacters st ! k)"
    by simp_all
  have "char_id (mergeCharacter (loadCharacters st ! k) u now) = i"
    using k(1) assms by (simp add: char_id_mergeCharacter)
  from find_list_update [OF Some, of "mergeCharacter (loadCharacters st ! k) u now"] this
  show ?thesis
    using Some k(2) by (simp add: getCharacter_def loadCharacters_updateCharacter)
qed

subsection \<open>What each handler stores\<close>

text \<open>In the lemmas of this subsection \<open>c\<close> is the rendered character and \<open>c0\<close> the
  stored one at the time of the write; the two may differ.\<close>

text \<open>The callbacks of an upload, run one after the other: the last one decides the
  stored reference images.\<close>

lemma upload_fold:
  assumes "getCharacter i st = Some c0"
  shows "\<exists>c'. getCharacter i
       (foldl (\<lambda>s (k, imageId). updateCharacter i
           (noCharacterUpdates\<lparr>
              new_char_referenceImages := Some (R @ [imageId]),
              new_char_selectedImage := (if T then None else Some (Some imageId))\<rparr>)
           (clock k) s) st kfs) = Some c'
     \<and> (if kfs = [] then c' = c0
        else char_referenceImages c' = R @ [snd (last kfs)]
           \<and> char_selectedImage c'
               = (if T then char_selectedImage c0 else Some (snd (last kfs))))"
  using assms
proof (induction kfs arbitrary: st c0)
  case Nil
  then show ?case by simp
next
  case (Cons kf kfs)
  obtain k f where kf: "kf = (k, f)" by (cases kf)
  define u where "u = noCharacterUpdates\<lparr>
              new_char_referenceImages := Some (R @ [f]),
              new_char_selectedImage := (if T then None else Some (Some f))\<rparr>"
  define c1 where "c1 = mergeCharacter c0 u (clock k)"
  have u: "new_char_id u = None"
    by (simp add: u_def noCharacterUpdates_def)
  have g1: "getCharacter i (updateCharacter i u (clock k) st) = Some c1"
    by (simp add: getCharacter_updateCharacter [OF u] Cons.prems c1_def)
  have c1: "char_referenceImages c1 = R @ [f]"
    "char_selectedImage c1 = (if T then char_selectedImage c0 else Some f)"
    by (simp_all add: c1_def u_def mergeCharacter_def noCharacterUpdates_def)
  from Cons.IH [OF g1] c1 show ?case
    by (auto simp: kf u_def split: if_splits)
qed

lemma last_enumerate: "xs \<noteq> [] \<Longrightarrow> snd (last (enumerate n xs)) = last xs"
proof -
  assume "xs \<noteq> []"
  then have "enumerate n xs \<noteq> []" by (cases xs) simp_all
  then have "last (map snd (enumerate n xs)) = snd (last (enumerate n xs))"
    by (rule last_map)
  then show ?thesis by simp
qed

lemma enumerate_Nil_iff: "enumerate n xs = [] \<longleftrightarrow> xs = []"
  by (cases xs) simp_all

lemma inOrder_schedule:
  assumes "is_schedule (length xs) schedule"
  shows "inOrder xs schedule = map (\<lambda>i. xs ! i) schedule"
proof -
  have "filter (\<lambda>i. i < length xs) schedule = schedule"
    using assms by (intro filter_True) (simp add: is_schedule_def)
  then show ?thesis by (simp add: inOrder_def)
qed

lemma schedule_Nil_iff:
  assumes "is_schedule n schedule"
  shows "schedule = [] \<longleftrightarrow> n = 0"
proof
  assume "schedule = []"
  with assms have "{0..<n} = {}" by (simp add: is_schedule_def)
  then show "n = 0" by simp
next
  assume "n = 0"
  with assms show "schedule = []" by (simp add: is_schedule_def)
qed

lemma remove_index:
  "map snd (filter (\<lambda>(i, x). i \<noteq> n + index) (enumerate n xs))
   = take index xs @ drop (Suc index) xs"
proof (induction xs arbitrary: n index)
  case Nil
  then show ?case by simp
next
  case (Cons x xs)
  show ?case
  proof (cases index)
    case 0
    have "filter (\<lambda>(i, x). i \<noteq> n) (enumerate (Suc n) xs) = enumerate (Suc n) xs"
      by (rule filter_True) (auto simp: in_set_enumerate_eq)
    with 0 show ?thesis by simp
  next
    case (Suc j)
    with Cons.IH [of "Suc n" j] show ?thesis by simp
  qed
qed

lemma upload_nothing:
  assumes "files = None \<or> (\<exists>fs. files = Some fs \<and> filesToProcess c fs = [])"
  shows "handleImageUpload clock c files schedule st = st"
  using assms by (auto simp: handleImageUpload_def inOrder_def)

text \<open>However many files are accepted, the stored images afterwards are the rendered
  ones and one more: the file whose callback comes last.\<close>

lemma upload_result:
  assumes "getCharacter (char_id c) st = Some c0"
    and "is_schedule (length (filesToProcess c fs)) schedule"
    and "filesToProcess c fs \<noteq> []"
  shows "\<exists>c'. getCharacter (char_id c) (handleImageUpload clock c (Some fs) schedule st) = Some c'
     \<and> char_referenceImages c' = char_referenceImages c @ [filesToProcess c fs ! last schedule]
     \<and> char_selectedImage c' =
         (if truthy (char_selectedImage c) then char_selectedImage c0
          else Some (filesToProcess c fs ! last schedule))"
proof -
  define finished where "finished = inOrder (filesToProcess c fs) schedule"
  have sched: "schedule \<noteq> []"
    using schedule_Nil_iff [OF assms(2)] assms(3) by simp
  have finished: "finished = map (\<lambda>i. filesToProcess c fs ! i) schedule"
    by (simp add: finished_def inOrder_schedule [OF assms(2)])
  with sched have nonempty: "finished \<noteq> []" by simp
  have last: "last finished = filesToProcess c fs ! last schedule"
    using sched by (simp add: finished last_map)
  have "enumerate 0 finished \<noteq> []"
    using nonempty by (simp add: enumerate_Nil_iff)
  with upload_fold [OF assms(1), where R = "char_referenceImages c"
      and T = "truthy (char_selectedImage c)" and clock = clock
      and kfs = "enumerate 0 finished"]
  show ?thesis
    by (cases "truthy (char_selectedImage c)")
      (simp_all add: handleImageUpload_def last_enumerate [OF nonempty] last flip: finished_def)
qed

lemma generate_result:
  assumes "getCharacter (char_id c) st = Some c0"
  shows "(if successes attempt IMAGES_PER_CHARACTER = [] then
            handleGenerateCharacterImages attempt now c (st, e) = (st, Some AllImagesFailed)
          else
            snd (handleGenerateCharacterImages attempt now c (st, e)) = None
            \<and> (\<exists>c'. getCharacter (char_id c)
                  (fst (handleGenerateCharacterImages attempt now c (st, e))) = Some c'
               \<and> char_referenceImages c' = take 8 (char_referenceImages c
                    @ successes attempt IMAGES_PER_CHARACTER)
               \<and> char_selectedImage c' =
                   (if truthy (char_selectedImage c) then char_selectedImage c0
                    else Some (hd (successes attempt IMAGES_PER_CHARACTER)))))"
proof -
  have new: "foldl (\<lambda>ids i. case attempt i of Inr imageId \<Rightarrow> ids @ [imageId] | Inl err \<Rightarrow> ids)
      [] [0..<IMAGES_PER_CHARACTER] = successes attempt IMAGES_PER_CHARACTER"
    by (simp add: foldl_successes successes_def)
  show ?thesis
  proof (cases "successes attempt IMAGES_PER_CHARACTER")
    case Nil
    then show ?thesis
      by (simp add: handleGenerateCharacterImages_def Let_def new)
  next
    case (Cons first rest)
    define u where "u = noCharacterUpdates\<lparr>
        new_char_referenceImages :=
          Some (slice0 (char_referenceImages c @ successes attempt IMAGES_PER_CHARACTER) 8),
        new_char_selectedImage :=
          (if truthy (char_selectedImage c) then None else Some (Some first))\<rparr>"
    have u: "new_char_id u = None"
      by (simp add: u_def noCharacterUpdates_def)
    have run: "handleGenerateCharacterImages attempt now c (st, e)
        = (updateCharacter (char_id c) u now st, None)"
      using Cons by (simp add: handleGenerateCharacterImages_def Let_def new u_def)
    have "char_referenceImages (mergeCharacter c0 u now)
        = take 8 (char_referenceImages c @ successes attempt IMAGES_PER_CHARACTER)"
      "char_selectedImage (mergeCharacter c0 u now)
        = (if truthy (char_selectedImage c) then char_selectedImage c0 else Some first)"
      by (simp_all add: u_def mergeCharacter_def noCharacterUpdates_def slice0_def)
    then show ?thesis
      using Cons by (simp add: run getCharacter_updateCharacter [OF u] assms)
  qed
qed

lemma remove_result:
  assumes "getCharacter (char_id c) st = Some c0"
    and "index < length (char_referenceImages c)"
  shows "\<exists>c'. getCharacter (char_id c) (handleRemoveImage now c index st) = Some c'
     \<and> char_referenceImages c'
         = take index (char_referenceImages c) @ drop (Suc index) (char_referenceImages c)
     \<and> char_selectedImage c' =
         (if char_selectedImage c = Some (char_referenceImages c ! index) then
            (case char_referenceImages c' of
               [] \<Rightarrow> None
             | x # _ \<Rightarrow> if x = [] then None else Some x)
          else char_selectedImage c0)"
proof -
  define newImages where
    "newImages = take index (char_referenceImages c) @ drop (Suc index) (char_referenceImages c)"
  define u where "u = noCharacterUpdates\<lparr>
      new_char_referenceImages := Some newImages,
      new_char_selectedImage :=
        (if char_selectedImage c = Some (char_referenceImages c ! index) then
           Some (case newImages of [] \<Rightarrow> None | x # _ \<Rightarrow> if x = [] then None else Some x)
         else None)\<rparr>"
  have u: "new_char_id u = None"
    by (simp add: u_def noCharacterUpdates_def)
  have eq: "map snd (filter (\<lambda>(i, x). i \<noteq> index) (enumerate 0 (char_referenceImages c)))
      = newImages"
    using remove_index [of 0 index "char_referenceImages c"] by (simp add: newImages_def)
  have run: "handleRemoveImage now c index st = updateCharacter (char_id c) u now st"
    using assms(2) by (simp add: handleRemoveImage_def Let_def eq u_def)
  have "char_referenceImages (mergeCharacter c0 u now) = newImages"
    "char_selectedImage (mergeCharacter c0 u now) =
       (if char_selectedImage c = Some (char_referenceImages c ! index) then
          (case newImages of [] \<Rightarrow> None | x # _ \<Rightarrow> if x = [] then None else Some x)
        else char_selectedImage c0)"
    by (simp_all add: u_def mergeCharacter_def noCharacterUpdates_def)
  then show ?thesis
    by (simp add: run getCharacter_updateCharacter [OF u] assms(1) newImages_def)
qed

lemma select_result:
  assumes "getCharacter (char_id c) st = Some c0"
  shows "\<exists>c'. getCharacter (char_id c) (onSelectImage now c imageId st) = Some c'
     \<and> char_referenceImages c' = char_referenceImages c0
     \<and> char_selectedImage c' = Some imageId"
proof -
  define u where "u = noCharacterUpdates\<lparr>new_char_selectedImage := Some (Some imageId)\<rparr>"
  have u: "new_char_id u = None"
    by (simp add: u_def noCharacterUpdates_def)
  have run: "onSelectImage now c imageId st = updateCharacter (char_id c) u now st"
    by (simp add: onSelectImage_def u_def)
  have "char_referenceImages (mergeCharacter c0 u now) = char_referenceImages c0"
    "char_selectedImage (mergeCharacter c0 u now) = Some imageId"
    by (simp_all add: u_def mergeCharacter_def noCharacterUpdates_def)
  then show ?thesis
    by (simp add: run getCharacter_updateCharacter [OF u] assms)
qed

subsection \<open>The bound of 8 images\<close>

lemma take_8_append:
  "length R \<le> 8 \<Longrightarrow> take 8 (R @ new) = R @ take (8 - length R) new"
  by simp

lemma filesToProcess_take:
  "length (char_referenceImages c) \<le> 8 \<Longrightarrow>
   filesToProcess c fs = take (8 - length (char_referenceImages c)) fs"
  by (simp add: filesToProcess_def slice0_def nat_diff_distrib')

text \<open>The bound holds after an upload and after a generation, whether or not the stored
  character is still the rendered one, since both write a list made from the rendered
  images.\<close>

lemma upload_bounded:
  assumes stored: "getCharacter (char_id c) st = Some c0"
    and bound0: "length (char_referenceImages c0) \<le> 8"
    and bound: "length (char_referenceImages c) \<le> 8"
    and sched: "is_schedule (length (filesToProcess c fs)) schedule"
  shows "\<exists>c'. getCharacter (char_id c) (handleImageUpload clock c (Some fs) schedule st) = Some c'
            \<and> length (char_referenceImages c') \<le> 8"
proof (cases "filesToProcess c fs = []")
  case True
  then have "handleImageUpload clock c (Some fs) schedule st = st"
    by (intro upload_nothing) simp
  with stored bound0 show ?thesis by simp
next
  case False
  have "length (char_referenceImages c) \<noteq> 8"
  proof
    assume "length (char_referenceImages c) = 8"
    then have "filesToProcess c fs = []"
      by (simp add: filesToProcess_def slice0_def)
    with False show False by simp
  qed
  with bound have less: "length (char_referenceImages c) < 8" by simp
  from upload_result [OF stored sched False, of clock] obtain c' where
    c': "getCharacter (char_id c) (handleImageUpload clock c (Some fs) schedule st) = Some c'"
      "char_referenceImages c'
         = char_referenceImages c @ [filesToProcess c fs ! last schedule]"
    by blast
  from c'(2) less have "length (char_referenceImages c') \<le> 8" by simp
  with c'(1) show ?thesis by blast
qed

lemma generate_bounded:
  assumes stored: "getCharacter (char_id c) st = Some c0"
    and bound0: "length (char_referenceImages c0) \<le> 8"
  shows "\<exists>c'. getCharacter (char_id c)
              (fst (handleGenerateCharacterImages attempt now c (st, e))) = Some c'
            \<and> length (char_referenceImages c') \<le> 8"
proof (cases "successes attempt IMAGES_PER_CHARACTER = []")
  case True
  with generate_result [OF stored, of attempt now e] stored bound0 show ?thesis by simp
next
  case False
  with generate_result [OF stored, of attempt now e] obtain c' where
    c': "getCharacter (char_id c)
          (fst (handleGenerateCharacterImages attempt now c (st, e))) = Some c'"
      "char_referenceImages c' = take 8 (char_referenceImages c
          @ successes attempt IMAGES_PER_CHARACTER)"
    by auto
  from c'(2) have "length (char_referenceImages c') \<le> 8" by simp
  with c'(1) show ?thesis by blast
qed

text \<open>A generation appends the first \<open>8 - n\<close> of its new portraits to the \<open>n\<close> rendered
  images.\<close>

lemma generate_appends:
  assumes stored: "getCharacter (char_id c) st = Some c0"
    and bound: "length (char_referenceImages c) \<le> 8"
    and some: "successes attempt IMAGES_PER_CHARACTER \<noteq> []"
  shows "\<exists>c'. getCharacter (char_id c)
              (fst (handleGenerateCharacterImages attempt now c (st, e))) = Some c'
            \<and> char_referenceImages c' = char_referenceImages c
                 @ take (8 - length (char_referenceImages c))
                     (successes attempt IMAGES_PER_CHARACTER)"
proof -
  from some generate_result [OF stored, of attempt now e] obtain c' where
    c': "getCharacter (char_id c)
          (fst (handleGenerateCharacterImages attempt now c (st, e))) = Some c'"
      "char_referenceImages c' = take 8 (char_referenceImages c
          @ successes attempt IMAGES_PER_CHARACTER)"
    by auto
  from c'(2) have "char_referenceImages c' = char_referenceImages c
      @ take (8 - length (char_referenceImages c)) (successes attempt IMAGES_PER_CHARACTER)"
    by (simp only: take_8_append [OF bound])
  with c'(1) show ?thesis by blast
qed

text \<open>An upload stores one file more than was rendered, however many files it
  accepted.\<close>

lemma upload_one_more:
  assumes stored: "getCharacter (char_id c) st = Some c0"
    and sched: "is_schedule (length (filesToProcess c fs)) schedule"
    and some: "filesToProcess c fs \<noteq> []"
  shows "\<exists>c'. getCharacter (char_id c) (handleImageUpload clock c (Some fs) schedule st) = Some c'
            \<and> length (char_referenceImages c') = Suc (length (char_referenceImages c))"
proof -
  from upload_result [OF stored sched some, of clock] obtain c' where
    c': "getCharacter (char_id c) (handleImageUpload clock c (Some fs) schedule st) = Some c'"
      "char_referenceImages c'
         = char_referenceImages c @ [filesToProcess c fs ! last schedule]"
    by blast
  from c'(2) have "length (char_referenceImages c') = Suc (length (char_referenceImages c))"
    by simp
  with c'(1) show ?thesis by blast
qed

lemma demo_accepted:
  "filesToProcess demo_character [''u1'', ''u2'', ''u3''] = [''u1'', ''u2'']"
  by (simp add: filesToProcess_def slice0_def demo_character_def)

lemma demo_character_stored:
  "getCharacter (char_id demo_character) demo_character_store = Some demo_character"
  by (simp add: getCharacter_def loadCharacters_def demo_character_store_def)

text \<open>
  Claim C2. The claim does not hold for an upload that leaves more than one slot free.
  A character with 6 reference images gets 3 files: the overflow is truncated as the
  claim says, 2 of the 3 files are accepted (\<open>filesToProcess\<close>), and nothing is raised;
  but the stored character ends with 7 images, not 8. Each of the two callbacks writes
  the six rendered images and its own file, so the file whose callback comes last
  replaces the other one: \<^verbatim>\<open>u2\<close> stays when the callbacks finish in the order of the
  files, \<^verbatim>\<open>u1\<close> when they finish in the other order.
\<close>

theorem upload_keeps_one_accepted_file:
  "filesToProcess demo_character [''u1'', ''u2'', ''u3''] = [''u1'', ''u2'']
   \<and> map_option char_referenceImages (getCharacter ''char-1''
        (handleImageUpload demo_clock demo_character (Some [''u1'', ''u2'', ''u3'']) [0, 1]
           demo_character_store))
     = Some [''r1'', ''r2'', ''r3'', ''r4'', ''r5'', ''r6'', ''u2'']
   \<and> map_option char_referenceImages (getCharacter ''char-1''
        (handleImageUpload demo_clock demo_character (Some [''u1'', ''u2'', ''u3'']) [1, 0]
           demo_character_store))
     = Some [''r1'', ''r2'', ''r3'', ''r4'', ''r5'', ''r6'', ''u1'']"
proof (intro conjI)
  show "filesToProcess demo_character [''u1'', ''u2'', ''u3''] = [''u1'', ''u2'']"
    by (rule demo_accepted)
  have nonempty: "filesToProcess demo_character [''u1'', ''u2'', ''u3''] \<noteq> []"
    by (simp add: demo_accepted)
  have fields: "char_id demo_character = ''char-1''"
    "char_referenceImages demo_character = [''r1'', ''r2'', ''r3'', ''r4'', ''r5'', ''r6'']"
    by (simp_all add: demo_character_def)
  have forward: "is_schedule (length (filesToProcess demo_character [''u1'', ''u2'', ''u3'']))
      [0, 1]"
    by (auto simp: demo_accepted is_schedule_def)
  from upload_result [OF demo_character_stored forward nonempty, of demo_clock]
  obtain c' where "getCharacter (char_id demo_character)
      (handleImageUpload demo_clock demo_character (Some [''u1'', ''u2'', ''u3'']) [0, 1]
         demo_character_store) = Some c'"
    "char_referenceImages c' = char_referenceImages demo_character
       @ [filesToProcess demo_character [''u1'', ''u2'', ''u3''] ! last [0, 1]]"
    by blast
  then show "map_option char_referenceImages (getCharacter ''char-1''
        (handleImageUpload demo_clock demo_character (Some [''u1'', ''u2'', ''u3'']) [0, 1]
           demo_character_store))
     = Some [''r1'', ''r2'', ''r3'', ''r4'', ''r5'', ''r6'', ''u2'']"
    by (simp add: demo_accepted fields)
  have backward: "is_schedule (length (filesToProcess demo_character [''u1'', ''u2'', ''u3'']))
      [1, 0]"
    by (auto simp: demo_accepted is_schedule_def)
  from upload_result [OF demo_character_stored backward nonempty, of demo_clock]
  obtain c' where "getCharacter (char_id demo_character)
      (handleImageUpload demo_clock demo_character (Some [''u1'', ''u2'', ''u3'']) [1, 0]
         demo_character_store) = Some c'"
    "char_referenceImages c' = char_referenceImages demo_character
       @ [filesToProcess demo_character [''u1'', ''u2'', ''u3''] ! last [1, 0]]"
    by blast
  then show "map_option char_referenceImages (getCharacter ''char-1''
        (handleImageUpload demo_clock demo_character (Some [''u1'', ''u2'', ''u3'']) [1, 0]
           demo_character_store))
     = Some [''r1'', ''r2'', ''r3'', ''r4'', ''r5'', ''r6'', ''u1'']"
    by (simp add: demo_accepted fields)
qed

subsection \<open>The selected image\<close>

lemma kept_after_removal:
  assumes "s \<in> set R" and "s \<noteq> R ! index" and "index < length R"
  shows "s \<in> set (take index R @ drop (Suc index) R)"
proof -
  from id_take_nth_drop [OF assms(3)]
  have "set R = set (take index R @ R ! index # drop (Suc index) R)"
    by (rule arg_cong [where f = set])
  then have "set R = insert (R ! index) (set (take index R) \<union> set (drop (Suc index) R))"
    by simp
  with assms(1,2) show ?thesis by simp
qed

text \<open>As long as the stored character is the rendered one at every write, each handler
  keeps the selection among the reference images: the following four lemmas. The
  generation needs fewer than 8 rendered images, which is the guard of the page.\<close>

lemma upload_selection:
  assumes current: "getCharacter (char_id c) st = Some c" and ok: "selection_ok c"
    and sched: "is_schedule (length (filesToProcess c fs)) schedule"
  shows "\<exists>c'. getCharacter (char_id c) (handleImageUpload clock c (Some fs) schedule st) = Some c'
            \<and> selection_ok c'"
proof (cases "filesToProcess c fs = []")
  case True
  then have "handleImageUpload clock c (Some fs) schedule st = st"
    by (intro upload_nothing) simp
  with current ok show ?thesis by simp
next
  case False
  from upload_result [OF current sched False, of clock] obtain c' where
    c': "getCharacter (char_id c) (handleImageUpload clock c (Some fs) schedule st) = Some c'"
      "char_referenceImages c'
         = char_referenceImages c @ [filesToProcess c fs ! last schedule]"
      "char_selectedImage c' =
         (if truthy (char_selectedImage c) then char_selectedImage c
          else Some (filesToProcess c fs ! last schedule))"
    by blast
  have "selection_ok c'"
  proof (cases "truthy (char_selectedImage c)")
    case True
    with ok c'(2,3) show ?thesis
      by (cases "char_selectedImage c") (simp_all add: selection_ok_def)
  next
    case False
    with c'(2,3) show ?thesis by (simp add: selection_ok_def)
  qed
  with c'(1) show ?thesis by blast
qed

lemma generate_selection:
  assumes current: "getCharacter (char_id c) st = Some c" and ok: "selection_ok c"
    and guard: "length (char_referenceImages c) < 8"
  shows "\<exists>c'. getCharacter (char_id c)
              (fst (handleGenerateCharacterImages attempt now c (st, e))) = Some c'
            \<and> selection_ok c'"
proof (cases "successes attempt IMAGES_PER_CHARACTER")
  case Nil
  with generate_result [OF current, of attempt now e] current ok show ?thesis by simp
next
  case (Cons first rest)
  with generate_result [OF current, of attempt now e] obtain c' where
    c': "getCharacter (char_id c)
        (fst (handleGenerateCharacterImages attempt now c (st, e))) = Some c'"
    "char_referenceImages c' = take 8 (char_referenceImages c @ first # rest)"
    "char_selectedImage c' =
       (if truthy (char_selectedImage c) then char_selectedImage c else Some first)"
    by auto
  obtain m where m: "8 - length (char_referenceImages c) = Suc m"
    using guard by (cases "8 - length (char_referenceImages c)") simp_all
  have refs: "char_referenceImages c' = char_referenceImages c @ first # take m rest"
    using guard by (simp add: c'(2) m)
  have "selection_ok c'"
  proof (cases "truthy (char_selectedImage c)")
    case True
    with ok c'(3) refs show ?thesis
      by (cases "char_selectedImage c") (simp_all add: selection_ok_def)
  next
    case False
    with c'(3) refs show ?thesis by (simp add: selection_ok_def)
  qed
  with c'(1) show ?thesis by blast
qed

lemma remove_selection:
  assumes current: "getCharacter (char_id c) st = Some c" and ok: "selection_ok c"
  shows "\<exists>c'. getCharacter (char_id c) (handleRemoveImage now c index st) = Some c'
            \<and> selection_ok c'"
proof (cases "index < length (char_referenceImages c)")
  case False
  with current ok show ?thesis by (simp add: handleRemoveImage_def)
next
  case True
  from remove_result [OF current True, of now] obtain c' where
    c': "getCharacter (char_id c) (handleRemoveImage now c index st) = Some c'"
    "char_referenceImages c'
       = take index (char_referenceImages c) @ drop (Suc index) (char_referenceImages c)"
    "char_selectedImage c' =
       (if char_selectedImage c = Some (char_referenceImages c ! index) then
          (case char_referenceImages c' of
             [] \<Rightarrow> None
           | x # _ \<Rightarrow> if x = [] then None else Some x)
        else char_selectedImage c)"
    by blast
  have "selection_ok c'"
  proof (cases "char_selectedImage c = Some (char_referenceImages c ! index)")
    case True
    with c'(3) show ?thesis
      by (cases "char_referenceImages c'") (simp_all add: selection_ok_def)
  next
    case False
    show ?thesis
    proof (cases "char_selectedImage c")
      case None
      with c'(3) False show ?thesis by (simp add: selection_ok_def)
    next
      case (Some s)
      with ok False have "s \<in> set (char_referenceImages c)"
        "s \<noteq> char_referenceImages c ! index"
        by (simp_all add: selection_ok_def)
      from kept_after_removal [OF this True] have "s \<in> set (char_referenceImages c')"
        by (simp only: c'(2))
      with c'(3) False Some show ?thesis
        by (simp add: selection_ok_def)
    qed
  qed
  with c'(1) show ?thesis by blast
qed

lemma select_selection:
  assumes current: "getCharacter (char_id c) st = Some c"
    and rendered: "imageId \<in> set (char_referenceImages c)"
  shows "\<exists>c'. getCharacter (char_id c) (onSelectImage now c imageId st) = Some c'
            \<and> selection_ok c'"
  using select_result [OF current, of now imageId] rendered
  by (auto simp: selection_ok_def)

text \<open>The removal of the selected image selects the first of the remaining images, or
  unsets the selection when none remains (image references being non-empty strings).\<close>

lemma remove_selected:
  assumes current: "getCharacter (char_id c) st = Some c"
    and index: "index < length (char_referenceImages c)"
    and selected: "char_selectedImage c = Some (char_referenceImages c ! index)"
    and nonempty: "[] \<notin> set (char_referenceImages c)"
  shows "\<exists>c'. getCharacter (char_id c) (handleRemoveImage now c index st) = Some c'
            \<and> char_referenceImages c' = take index (char_referenceImages c)
                 @ drop (Suc index) (char_referenceImages c)
            \<and> char_selectedImage c' =
                (case char_referenceImages c' of [] \<Rightarrow> None | x # _ \<Rightarrow> Some x)"
proof -
  from remove_result [OF current index, of now] selected obtain c' where
    c': "getCharacter (char_id c) (handleRemoveImage now c index st) = Some c'"
    "char_referenceImages c'
       = take index (char_referenceImages c) @ drop (Suc index) (char_referenceImages c)"
    "char_selectedImage c' =
       (case char_referenceImages c' of
          [] \<Rightarrow> None
        | x # _ \<Rightarrow> if x = [] then None else Some x)"
    by auto
  have "set (char_referenceImages c') \<subseteq> set (char_referenceImages c)"
    unfolding c'(2) by (simp add: set_take_subset set_drop_subset)
  with nonempty have "[] \<notin> set (char_referenceImages c')" by blast
  then have "char_selectedImage c' =
      (case char_referenceImages c' of [] \<Rightarrow> None | x # _ \<Rightarrow> Some x)"
    by (cases "char_referenceImages c'") (auto simp: c'(3))
  with c'(1,2) show ?thesis by blast
qed

lemma demo_uploaded:
  "getCharacter ''char-2'' demo_store_uploaded = Some demo_rerendered"
proof -
  have stored: "getCharacter ''char-2'' demo_store_rendered = Some demo_rendered"
    by (simp add: getCharacter_def loadCharacters_def demo_store_rendered_def
        demo_rendered_def)
  have accepted: "filesToProcess demo_rendered [''u''] = [''u'']"
    by (simp add: filesToProcess_def slice0_def demo_rendered_def)
  have fields: "char_id demo_rendered = ''char-2''"
    "char_referenceImages demo_rendered = [''a'']"
    "truthy (char_selectedImage demo_rendered)"
    by (simp_all add: demo_rendered_def truthy_def)
  define u where "u = noCharacterUpdates\<lparr>new_char_referenceImages := Some [''a'', ''u''],
      new_char_selectedImage := None\<rparr>"
  have u: "new_char_id u = None"
    by (simp add: u_def noCharacterUpdates_def)
  have run: "demo_store_uploaded = updateCharacter ''char-2'' u ''t0'' demo_store_rendered"
    by (simp add: demo_store_uploaded_def handleImageUpload_def accepted inOrder_def fields
        demo_clock_def u_def)
  have merged: "mergeCharacter demo_rendered u ''t0'' = demo_rerendered"
    by (simp add: mergeCharacter_def u_def noCharacterUpdates_def demo_rerendered_def
        demo_rendered_def)
  have "getCharacter ''char-2'' (updateCharacter ''char-2'' u ''t0'' demo_store_rendered)
      = Some (mergeCharacter demo_rendered u ''t0'')"
    by (simp add: getCharacter_updateCharacter [OF u] stored)
  then show ?thesis
    by (simp only: run merged)
qed

text \<open>
  Claim C3. The claim does not hold when a write of the page is overtaken by another.
  The page renders a character with the image \<^verbatim>\<open>a\<close>, selected, and a generation starts
  for it. While the portraits are made the user uploads \<^verbatim>\<open>u\<close> and selects it: the stored
  character then has the images \<^verbatim>\<open>a\<close>, \<^verbatim>\<open>u\<close> and the selection \<^verbatim>\<open>u\<close>, and the invariant
  holds. The generation then writes the images of the character it rendered and its
  three portraits, and no selection, since the rendered character had one: the stored
  character ends with the images \<^verbatim>\<open>a\<close>, \<^verbatim>\<open>g1\<close>, \<^verbatim>\<open>g2\<close>, \<^verbatim>\<open>g3\<close> and the selection \<^verbatim>\<open>u\<close>,
  which is none of them.
\<close>

theorem overtaken_generation_breaks_selection:
  "map_option (\<lambda>c. (char_referenceImages c, char_selectedImage c, selection_ok c))
     (getCharacter ''char-2'' demo_store_selected)
     = Some ([''a'', ''u''], Some ''u'', True)
   \<and> map_option (\<lambda>c. (char_referenceImages c, char_selectedImage c, selection_ok c))
     (getCharacter ''char-2''
        (fst (handleGenerateCharacterImages demo_portraits ''t2'' demo_rendered
           (demo_store_selected, None))))
     = Some ([''a'', ''g1'', ''g2'', ''g3''], Some ''u'', False)"
proof -
  have id: "char_id demo_rendered = ''char-2''" "char_id demo_rerendered = ''char-2''"
    by (simp_all add: demo_rendered_def demo_rerendered_def)
  from select_result [of demo_rerendered demo_store_uploaded demo_rerendered "''t1''" "''u''"]
    demo_uploaded
  obtain c1 where c1: "getCharacter ''char-2'' demo_store_selected = Some c1"
    "char_referenceImages c1 = [''a'', ''u'']" "char_selectedImage c1 = Some ''u''"
    by (auto simp: id demo_store_selected_def demo_rerendered_def)
  have portraits: "successes demo_portraits IMAGES_PER_CHARACTER = [''g1'', ''g2'', ''g3'']"
    by (simp add: successes_def IMAGES_PER_CHARACTER_def demo_portraits_def
        List.map_filter_simps numeral_3_eq_3)
  from generate_result [of demo_rendered demo_store_selected c1 demo_portraits "''t2''" None]
    c1(1)
  obtain c2 where c2: "getCharacter ''char-2''
        (fst (handleGenerateCharacterImages demo_portraits ''t2'' demo_rendered
           (demo_store_selected, None))) = Some c2"
    "char_referenceImages c2 = [''a'', ''g1'', ''g2'', ''g3'']"
    "char_selectedImage c2 = Some ''u''"
    by (auto simp: id portraits c1(3) demo_rendered_def truthy_def)
  from c1 c2 show ?thesis
    by (simp add: selection_ok_def)
qed

section \<open>Properties of the records made from an analysis result\<close>

lemma charNameToId_fold:
  "foldl (\<lambda>m c. m(char_name c \<mapsto> char_id c)) m0 chars n =
     (case find (\<lambda>c. char_name c = n) (rev chars) of
        None \<Rightarrow> m0 n
      | Some c \<Rightarrow> Some (char_id c))"
  by (induction chars rule: rev_induct) simp_all

lemma charNameToId_last:
  "charNameToId chars n = map_option char_id (find (\<lambda>c. char_name c = n) (rev chars))"
  by (simp add: charNameToId_def charNameToId_fold split: option.splits)

lemma characterIdsOf_last:
  "characterIdsOf chars names =
     List.map_filter (\<lambda>n.
       case find (\<lambda>c. char_name c = n) (rev chars) of
         None \<Rightarrow> None
       | Some c \<Rightarrow> if char_id c = [] then None else Some (char_id c)) names"
  by (induction names)
    (simp_all add: characterIdsOf_def charNameToId_last truthy_def List.map_filter_simps
      split: option.splits)

lemma find_rev_unique:
  assumes "c \<in> set chars" and "\<forall>d \<in> set chars. char_name d = char_name c \<longrightarrow> d = c"
  shows "find (\<lambda>d. char_name d = char_name c) (rev chars) = Some c"
proof (cases "find (\<lambda>d. char_name d = char_name c) (rev chars)")
  case None
  with assms(1) show ?thesis by (auto simp: find_None_iff)
next
  case (Some d)
  from find_SomeD [OF Some] have "d \<in> set chars" "char_name d = char_name c"
    by simp_all
  with assms(2) Some show ?thesis by simp
qed

lemma map_enumerate_snd: "map (\<lambda>x. f (snd x)) (enumerate k xs) = map f xs"
  by (induction xs arbitrary: k) simp_all

text \<open>
  Claim C7, amended. The \<open>characterIds\<close> of every new scene are computed from the names
  the scene lists, by exact (case-sensitive) equality with the names of the new
  characters: for every listed name the identifier of the last new character of that
  name, and nothing for a name that no new character has. So a name without a match is
  dropped, and a name that exactly one new character has yields that character's
  identifier (identifiers being non-empty).
\<close>

theorem characterIds_by_name:
  "map scene_characterIds (scenesOfResult env k scriptId now chars result)
     = map (\<lambda>s. characterIdsOf chars (as_characterNames s)) (ar_scenes result)
   \<and> characterIdsOf chars names =
       List.map_filter (\<lambda>n.
         case find (\<lambda>c. char_name c = n) (rev chars) of
           None \<Rightarrow> None
         | Some c \<Rightarrow> if char_id c = [] then None else Some (char_id c)) names
   \<and> ((\<forall>c \<in> set chars. char_name c \<noteq> n) \<longrightarrow> characterIdsOf chars [n] = [])
   \<and> (c \<in> set chars \<and> (\<forall>d \<in> set chars. char_name d = char_name c \<longrightarrow> d = c)
        \<and> char_id c \<noteq> [] \<longrightarrow> characterIdsOf chars [char_name c] = [char_id c])"
proof (intro conjI impI)
  show "map scene_characterIds (scenesOfResult env k scriptId now chars result)
      = map (\<lambda>s. characterIdsOf chars (as_characterNames s)) (ar_scenes result)"
    using map_enumerate_snd [of "\<lambda>s. characterIdsOf chars (as_characterNames s)" k
        "ar_scenes result"]
    by (simp add: scenesOfResult_def split_def comp_def)
  show "characterIdsOf chars names =
       List.map_filter (\<lambda>n.
         case find (\<lambda>c. char_name c = n) (rev chars) of
           None \<Rightarrow> None
         | Some c \<Rightarrow> if char_id c = [] then None else Some (char_id c)) names"
    by (rule characterIdsOf_last)
next
  assume "\<forall>c \<in> set chars. char_name c \<noteq> n"
  then have "find (\<lambda>c. char_name c = n) (rev chars) = None"
    by (simp add: find_None_iff)
  then show "characterIdsOf chars [n] = []"
    by (simp add: characterIdsOf_last List.map_filter_simps)
next
  assume "c \<in> set chars \<and> (\<forall>d \<in> set chars. char_name d = char_name c \<longrightarrow> d = c)
      \<and> char_id c \<noteq> []"
  then have c: "c \<in> set chars" "\<forall>d \<in> set chars. char_name d = char_name c \<longrightarrow> d = c"
    "char_id c \<noteq> []"
    by simp_all
  from find_rev_unique [OF c(1,2)] c(3) show "characterIdsOf chars [char_name c] = [char_id c]"
    by (simp add: characterIdsOf_last List.map_filter_simps)
qed

text \<open>With two new characters of the same name the scene is linked to the second one,
  where a first-match lookup gives the first.\<close>

theorem first_match_counterexample:
  "map scene_characterIds
     (scenesOfResult demo_env 3 ''id-0'' ''t0''
        (charactersOfResult demo_env 1 ''id-0'' ''t0'' demo_twins) demo_twins)
     = [[''id-2'']]
   \<and> spec_firstMatchIds (charactersOfResult demo_env 1 ''id-0'' ''t0'' demo_twins) [''Anna'']
     = [''id-1'']"
  by (simp add: scenesOfResult_def charactersOfResult_def demo_twins_def demo_env_def
      characterIdsOf_def charNameToId_def truthy_def spec_firstMatchIds_def
      List.map_filter_simps)

theorem characterIds_by_name_witness:
  "map scene_characterIds
     (scenesOfResult demo_env 2 ''id-0'' ''t0''
        (charactersOfResult demo_env 1 ''id-0'' ''t0'' demo_cafe) demo_cafe)
   = [[''id-1''], [], []]"
proof -
  define chars where "chars = charactersOfResult demo_env 1 ''id-0'' ''t0'' demo_cafe"
  define anna where "anna = hd chars"
  have chars: "chars = [anna]" "char_name anna = ''Anna''" "char_id anna = ''id-1''"
    by (simp_all add: anna_def chars_def charactersOfResult_def demo_cafe_def demo_env_def)
  have "anna \<in> set chars \<and> (\<forall>d \<in> set chars. char_name d = char_name anna \<longrightarrow> d = anna)
      \<and> char_id anna \<noteq> []"
    by (simp add: chars)
  from characterIds_by_name [where chars = chars and c = anna, THEN conjunct2,
      THEN conjunct2, THEN conjunct2, THEN mp, OF this]
  have first: "characterIdsOf chars [''Anna''] = [''id-1'']"
    by (simp add: chars)
  have "\<forall>c \<in> set chars. char_name c \<noteq> ''Bob''"
    by (simp add: chars)
  from characterIds_by_name [where chars = chars and n = "''Bob''", THEN conjunct2,
      THEN conjunct2, THEN conjunct1, THEN mp, OF this]
  have second: "characterIdsOf chars [''Bob''] = []" .
  have "\<forall>c \<in> set chars. char_name c \<noteq> ''anna''"
    by (simp add: chars)
  from characterIds_by_name [where chars = chars and n = "''anna''", THEN conjunct2,
      THEN conjunct2, THEN conjunct1, THEN mp, OF this]
  have third: "characterIdsOf chars [''anna''] = []" .
  from characterIds_by_name [where chars = chars and result = demo_cafe and env = demo_env
      and k = 2 and scriptId = "''id-0''" and now = "''t0''", THEN conjunct1]
  have "map scene_characterIds (scenesOfResult demo_env 2 ''id-0'' ''t0'' chars demo_cafe)
      = map (\<lambda>s. characterIdsOf chars (as_characterNames s)) (ar_scenes demo_cafe)" .
  also have "\<dots> = [[''id-1''], [], []]"
    by (simp add: demo_cafe_def first second third)
  finally show ?thesis
    unfolding chars_def .
qed

lemma findIndex_last:
  "\<forall>x \<in> set xs. \<not> P x \<Longrightarrow> P y \<Longrightarrow> findIndex P (xs @ [y]) = Some (length xs)"
  by (induction xs) simp_all

lemma updateScript_added:
  assumes fresh: "\<forall>s \<in> set (loadScripts st). script_id s \<noteq> script_id script"
  shows "loadScripts (updateScript (script_id script) u now (addScript script st))
       = loadScripts st @ [mergeScript script u now]
     \<and> loadCharacters (updateScript (script_id script) u now (addScript script st))
       = loadCharacters st
     \<and> loadScenes (updateScript (script_id script) u now (addScript script st))
       = loadScenes st"
proof -
  have "findIndex (\<lambda>s. script_id s = script_id script) (loadScripts st @ [script])
      = Some (length (loadScripts st))"
    using fresh by (intro findIndex_last) simp_all
  then show ?thesis
    by (simp add: updateScript_def addScript_def Let_def load_save_simps)
qed

text \<open>
  Claim C8. When the analysis adapter throws (as it does for a response without valid
  JSON), the error reaches the page as its error message, and the script is not left
  in the status \<^verbatim>\<open>analyzing\<close>. For a new script (valid title and content, fresh
  identifier): the store afterwards holds the scripts it held before and the new script
  with status \<^verbatim>\<open>draft\<close>, and no character or scene has been added or changed. For a
  re-analysis: the store afterwards is the store before, so the script has the status it
  had before the analysis.
\<close>

theorem analysis_failure_rolls_back:
  "(trim env title \<noteq> [] \<and> trim env rawContent \<noteq> []
      \<and> (\<forall>s \<in> set (loadScripts st). script_id s \<noteq> uuidv4 env 0)
      \<and> analyzeScript env rawContent = Inl err \<longrightarrow>
      loadScripts (fst (handleSubmit env title rawContent genre st))
        = loadScripts st @ [\<lparr>
            script_id = uuidv4 env 0,
            script_title = trim env title,
            script_rawContent = trim env rawContent,
            script_genre = (if trim env genre = [] then None else Some (trim env genre)),
            script_styleGuide = None,
            script_status = Draft,
            script_createdAt = toISOString env 0,
            script_updatedAt = toISOString env 1\<rparr>]
      \<and> loadCharacters (fst (handleSubmit env title rawContent genre st)) = loadCharacters st
      \<and> loadScenes (fst (handleSubmit env title rawContent genre st)) = loadScenes st
      \<and> snd (handleSubmit env title rawContent genre st)
        = (Some (case err of Error m \<Rightarrow> m | NotAnError \<Rightarrow> AnalysisError), None))
   \<and> (analyzeScript env (script_rawContent script) = Inl err \<longrightarrow>
      handleReanalyze env True script (st, e)
        = (st, Some (case err of Error m \<Rightarrow> m | NotAnError \<Rightarrow> AnalysisError)))"
proof (intro conjI impI)
  assume a: "trim env title \<noteq> [] \<and> trim env rawContent \<noteq> []
      \<and> (\<forall>s \<in> set (loadScripts st). script_id s \<noteq> uuidv4 env 0)
      \<and> analyzeScript env rawContent = Inl err"
  define script where "script = \<lparr>
      script_id = uuidv4 env 0,
      script_title = trim env title,
      script_rawContent = trim env rawContent,
      script_genre = (if trim env genre = [] then None else Some (trim env genre)),
      script_styleGuide = None,
      script_status = Analyzing,
      script_createdAt = toISOString env 0,
      script_updatedAt = toISOString env 0\<rparr>"
  define u where "u = noScriptUpdates\<lparr>new_script_status := Some Draft\<rparr>"
  have run: "handleSubmit env title rawContent genre st
      = (updateScript (script_id script) u (toISOString env 1) (addScript script st),
         Some (case err of Error m \<Rightarrow> m | NotAnError \<Rightarrow> AnalysisError), None)"
    using a by (simp add: handleSubmit_def Let_def script_def u_def)
  have fresh: "\<forall>s \<in> set (loadScripts st). script_id s \<noteq> script_id script"
    using a by (simp add: script_def)
  have merged: "mergeScript script u (toISOString env 1) = \<lparr>
      script_id = uuidv4 env 0,
      script_title = trim env title,
      script_rawContent = trim env rawContent,
      script_genre = (if trim env genre = [] then None else Some (trim env genre)),
      script_styleGuide = None,
      script_status = Draft,
      script_createdAt = toISOString env 0,
      script_updatedAt = toISOString env 1\<rparr>"
    by (simp add: mergeScript_def script_def u_def noScriptUpdates_def)
  note stored = updateScript_added [OF fresh, of u "toISOString env 1"]
  show "loadScripts (fst (handleSubmit env title rawContent genre st))
      = loadScripts st @ [\<lparr>
          script_id = uuidv4 env 0,
          script_title = trim env title,
          script_rawContent = trim env rawContent,
          script_genre = (if trim env genre = [] then None else Some (trim env genre)),
          script_styleGuide = None,
          script_status = Draft,
          script_createdAt = toISOString env 0,
          script_updatedAt = toISOString env 1\<rparr>]"
    by (simp only: run fst_conv stored merged)
  show "loadCharacters (fst (handleSubmit env title rawContent genre st)) = loadCharacters st"
    by (simp only: run fst_conv stored)
  show "loadScenes (fst (handleSubmit env title rawContent genre st)) = loadScenes st"
    by (simp only: run fst_conv stored)
  show "snd (handleSubmit env title rawContent genre st)
      = (Some (case err of Error m \<Rightarrow> m | NotAnError \<Rightarrow> AnalysisError), None)"
    by (simp only: run snd_conv)
next
  assume "analyzeScript env (script_rawContent script) = Inl err"
  then show "handleReanalyze env True script (st, e)
      = (st, Some (case err of Error m \<Rightarrow> m | NotAnError \<Rightarrow> AnalysisError))"
    by (simp add: handleReanalyze_def)
qed

theorem analysis_failure_rolls_back_witness:
  "loadScripts (fst (handleSubmit demo_env ''Cafe'' ''Anna drinks coffee.'' [] demo_store))
     = [\<lparr>script_id = ''id-0'',
         script_title = ''Cafe'',
         script_rawContent = ''Anna drinks coffee.'',
         script_genre = None,
         script_styleGuide = None,
         script_status = Draft,
         script_createdAt = ''t0'',
         script_updatedAt = ''t1''\<rparr>]
   \<and> snd (handleSubmit demo_env ''Cafe'' ''Anna drinks coffee.'' [] demo_store)
     = (Some (Text ''Unexpected end of JSON input''), None)
   \<and> handleReanalyze demo_env True
       \<lparr>script_id = ''id-9'', script_title = ''Old'', script_rawContent = ''Text'',
        script_genre = None, script_styleGuide = None, script_status = Ready,
        script_createdAt = ''t'', script_updatedAt = ''t''\<rparr> (demo_store, None)
     = (demo_store, Some (Text ''Unexpected end of JSON input''))"
proof -
  have "trim demo_env ''Cafe'' \<noteq> [] \<and> trim demo_env ''Anna drinks coffee.'' \<noteq> []
      \<and> (\<forall>s \<in> set (loadScripts demo_store). script_id s \<noteq> uuidv4 demo_env 0)
      \<and> analyzeScript demo_env ''Anna drinks coffee.''
          = Inl (Error (Text ''Unexpected end of JSON input''))"
    by (simp add: demo_env_def demo_store_def loadScripts_def)
  from analysis_failure_rolls_back [where env = demo_env and title = "''Cafe''"
      and rawContent = "''Anna drinks coffee.''" and genre = "[]" and st = demo_store
      and err = "Error (Text ''Unexpected end of JSON input'')",
      THEN conjunct1, THEN mp, OF this]
  have submit:
    "loadScripts (fst (handleSubmit demo_env ''Cafe'' ''Anna drinks coffee.'' [] demo_store))
     = [\<lparr>script_id = ''id-0'',
         script_title = ''Cafe'',
         script_rawContent = ''Anna drinks coffee.'',
         script_genre = None,
         script_styleGuide = None,
         script_status = Draft,
         script_createdAt = ''t0'',
         script_updatedAt = ''t1''\<rparr>]"
    "snd (handleSubmit demo_env ''Cafe'' ''Anna drinks coffee.'' [] demo_store)
     = (Some (Text ''Unexpected end of JSON input''), None)"
    by (simp_all add: demo_env_def demo_store_def demo_clock_def loadScripts_def)
  have "analyzeScript demo_env ''Text'' = Inl (Error (Text ''Unexpected end of JSON input''))"
    by (simp add: demo_env_def)
  from analysis_failure_rolls_back [where env = demo_env
      and script = "\<lparr>script_id = ''id-9'', script_title = ''Old'', script_rawContent = ''Text'',
        script_genre = None, script_styleGuide = None, script_status = Ready,
        script_createdAt = ''t'', script_updatedAt = ''t''\<rparr>"
      and err = "Error (Text ''Unexpected end of JSON input'')" and st = demo_store and e = None,
      THEN conjunct2, THEN mp] this submit
  show ?thesis by simp
qed

end
